theory Spec2Isabelle
  imports Main "HOL-Library.Product_Lexorder"
begin

section \<open>JavaScript values used by the booking backend\<close>

text \<open>
  The backend is Google Apps Script (JavaScript on V8). A JavaScript string is a sequence
  of UTF-16 code units; the titles scanned by the slot extractor contain Chinese markers,
  so a string is modelled as the list of its code units, each an integer. \<open>ascii\<close> embeds an ASCII literal.
\<close>

type_synonym jsstring = "int list"

definition ascii :: "string \<Rightarrow> jsstring" where
  "ascii s = map of_char s"

text \<open>
  A \<open>Date\<close> object is its time value in milliseconds since the epoch; \<open>None\<close> is the
  Invalid Date (time value NaN). Relational operators on dates compare the time values, and
  every comparison with NaN is false.
\<close>

type_synonym jsdate = "int option"

definition js_lt :: "jsdate \<Rightarrow> jsdate \<Rightarrow> bool" where
  "js_lt a b = (case a of None \<Rightarrow> False | Some x \<Rightarrow> (case b of None \<Rightarrow> False | Some y \<Rightarrow> x < y))"

definition js_gt :: "jsdate \<Rightarrow> jsdate \<Rightarrow> bool" where
  "js_gt a b = js_lt b a"

datatype error =
    RangeError
  | ConfigError
  | FetchError

subsection \<open>Calendar dates\<close>

text \<open>
  A date string \<open>YYYY-MM-DD\<close> is modelled by its three numeric fields. Two such strings
  are equal exactly when their fields are, and they compare lexicographically as the triples do.
  \<open>days_from_civil\<close> is the day number of a civil date (day 0 is 1970-01-01), as the
  platform's date constructor computes it; a day field beyond the end of the month rolls over
  into the next month, as it does on V8.
\<close>

type_synonym ymd = "int \<times> int \<times> int"

definition days_from_civil :: "ymd \<Rightarrow> int" where
  "days_from_civil d = (case d of (y, m, dd) \<Rightarrow>
     (let y1 = (if m \<le> 2 then y - 1 else y);
          era = y1 div 400;
          yoe = y1 - era * 400;
          mp = (if m > 2 then m - 3 else m + 9);
          doy = (153 * mp + 2) div 5 + dd - 1;
          doe = yoe * 365 + yoe div 4 - yoe div 100 + doy
      in era * 146097 + doe - 719468))"

definition civil_from_days :: "int \<Rightarrow> ymd" where
  "civil_from_days z =
     (let z1 = z + 719468;
          era = z1 div 146097;
          doe = z1 - era * 146097;
          yoe = (doe - doe div 1460 + doe div 36524 - doe div 146096) div 365;
          doy = doe - (365 * yoe + yoe div 4 - yoe div 100);
          mp = (5 * doy + 2) div 153;
          dd = doy - (153 * mp + 2) div 5 + 1;
          m = (if mp < 10 then mp + 3 else mp - 9);
          y = yoe + era * 400
      in (if m \<le> 2 then y + 1 else y, m, dd))"

definition date_fields_ok :: "ymd \<Rightarrow> bool" where
  "date_fields_ok d = (case d of (y, m, dd) \<Rightarrow>
     0 \<le> y \<and> y \<le> 9999 \<and> 1 \<le> m \<and> m \<le> 12 \<and> 1 \<le> dd \<and> dd \<le> 31)"

definition MS_PER_DAY :: int where "MS_PER_DAY = 86400000"
definition MS_PER_HOUR :: int where "MS_PER_HOUR = 3600000"
definition UTC_OFFSET_MS :: int where "UTC_OFFSET_MS = 8 * 60 * 60 * 1000"

text \<open>
  \<open>new Date(dateStr + 'T' + HH + ':' + MM + ':' + SS + '+08:00')\<close>, where HH and MM were
  produced by \<open>String(n).padStart(2, '0')\<close>. The string parses only if every field is in
  range; hour 24 is accepted only as 24:00:00. A number of three or more digits does not fit
  the two-digit field, which the range check covers as well.
\<close>

definition iso_taipei :: "ymd \<Rightarrow> nat \<Rightarrow> nat \<Rightarrow> nat \<Rightarrow> jsdate" where
  "iso_taipei d hh mm ss =
     (if date_fields_ok d \<and> (hh \<le> 23 \<and> mm \<le> 59 \<and> ss \<le> 59 \<or> hh = 24 \<and> mm = 0 \<and> ss = 0)
      then Some (days_from_civil d * MS_PER_DAY + int hh * MS_PER_HOUR + int mm * 60000
                 + int ss * 1000 - UTC_OFFSET_MS)
      else None)"

text \<open>\<open>getTaipeiDateString\<close> (utils.gs): \<open>toISOString\<close> throws a RangeError on an Invalid Date.\<close>

definition getTaipeiDateString :: "jsdate \<Rightarrow> error + ymd" where
  "getTaipeiDateString date =
     (case date of
        None \<Rightarrow> Inl RangeError
      | Some t \<Rightarrow> Inr (civil_from_days ((t + UTC_OFFSET_MS) div MS_PER_DAY)))"


section \<open>Availability matcher (timeslotService.gs)\<close>

text \<open>
  A calendar event as the matcher sees it through \<open>getTitle\<close>, \<open>getStartTime\<close> and
  \<open>getEndTime\<close>. A time slot is the string \<open>HH:MM\<close>; the code splits it at the colon and
  converts both parts with \<open>Number\<close>, so the slot is modelled by the two numbers obtained.
\<close>

record event =
  getTitle :: jsstring
  getStartTime :: jsdate
  getEndTime :: jsdate

type_synonym timeslot = "nat \<times> nat"

datatype reason = Bookable | ConflictsWith nat | CheckFailed error

record availability =
  available :: bool
  conflictCount :: int
  conflictingEvents :: "event list"
  reason :: reason

text \<open>\<open>CALENDAR_CONFIG\<close> (config.gs).\<close>

definition defaultDuration :: nat where "defaultDuration = 1"
definition businessHours_start :: timeslot where "businessHours_start = (8, 0)"
definition businessHours_end :: timeslot where "businessHours_end = (22, 0)"
definition enableBusinessHoursFilter :: bool where "enableBusinessHoursFilter = True"

text \<open>
  The loop over the events in \<open>checkSingleTimeSlotAvailability\<close>: an event whose Taipei
  start date is not the query date is skipped; otherwise it is counted when
  \<open>slotStart < eventEnd && slotEnd > eventStart\<close>. \<open>getTaipeiDateString\<close> may throw, which
  leaves the loop.
\<close>

fun count_conflicts ::
  "jsdate \<Rightarrow> jsdate \<Rightarrow> ymd \<Rightarrow> event list \<Rightarrow> nat \<times> event list \<Rightarrow> error + (nat \<times> event list)" where
  "count_conflicts slotStart slotEnd queryDateStr [] acc = Inr acc"
| "count_conflicts slotStart slotEnd queryDateStr (ev # events) acc =
     (case getTaipeiDateString (getStartTime ev) of
        Inl err \<Rightarrow> Inl err
      | Inr eventDateStr \<Rightarrow>
          if eventDateStr \<noteq> queryDateStr
          then count_conflicts slotStart slotEnd queryDateStr events acc
          else if js_lt slotStart (getEndTime ev) \<and> js_gt slotEnd (getStartTime ev)
          then count_conflicts slotStart slotEnd queryDateStr events (fst acc + 1, snd acc @ [ev])
          else count_conflicts slotStart slotEnd queryDateStr events acc)"

definition slot_window :: "ymd \<Rightarrow> timeslot \<Rightarrow> jsdate \<times> jsdate" where
  "slot_window queryDateStr timeSlot =
     (let hour = fst timeSlot; minute = snd timeSlot;
          slotStart = iso_taipei queryDateStr hour minute 0;
          endHour = hour + defaultDuration;
          slotEnd = iso_taipei queryDateStr endHour minute 0
      in (slotStart, slotEnd))"

definition availability_of :: "error + (nat \<times> event list) \<Rightarrow> availability" where
  "availability_of r =
     (case r of
        Inl err \<Rightarrow>
          \<lparr>available = False, conflictCount = - 1, conflictingEvents = [],
           reason = CheckFailed err\<rparr>
      | Inr acc \<Rightarrow>
          \<lparr>available = (fst acc = 0), conflictCount = int (fst acc),
           conflictingEvents = snd acc,
           reason = (if fst acc = 0 then Bookable else ConflictsWith (fst acc))\<rparr>)"

definition checkSingleTimeSlotAvailability ::
  "event list \<Rightarrow> timeslot \<Rightarrow> jsdate \<Rightarrow> ymd \<Rightarrow> availability" where
  "checkSingleTimeSlotAvailability events timeSlot date queryDateStr =
     availability_of
       (count_conflicts (fst (slot_window queryDateStr timeSlot))
          (snd (slot_window queryDateStr timeSlot)) queryDateStr events (0, []))"

text \<open>The batch variant has the same body.\<close>

definition checkSingleTimeSlotAvailabilityFromEvents ::
  "event list \<Rightarrow> timeslot \<Rightarrow> jsdate \<Rightarrow> ymd \<Rightarrow> availability" where
  "checkSingleTimeSlotAvailabilityFromEvents bookingEvents timeSlot date queryDateStr =
     availability_of
       (count_conflicts (fst (slot_window queryDateStr timeSlot))
          (snd (slot_window queryDateStr timeSlot)) queryDateStr bookingEvents (0, []))"

text \<open>\<open>getOptimizedQueryRange\<close> (utils.gs): the business hours of the query date.\<close>

definition getOptimizedQueryRange :: "ymd \<Rightarrow> jsdate \<times> jsdate" where
  "getOptimizedQueryRange queryDateStr =
     (if \<not> enableBusinessHoursFilter
      then (iso_taipei queryDateStr 0 0 0, iso_taipei queryDateStr 23 59 59)
      else
        (let businessStartTime =
               iso_taipei queryDateStr (fst businessHours_start) (snd businessHours_start) 0;
             businessEndTime =
               iso_taipei queryDateStr (fst businessHours_end) (snd businessHours_end) 59;
             dayStart = iso_taipei queryDateStr 0 0 0;
             dayEnd = iso_taipei queryDateStr 23 59 59;
             optimizedStart = (if js_lt businessStartTime dayStart then dayStart else businessStartTime);
             optimizedEnd = (if js_gt businessEndTime dayEnd then dayEnd else businessEndTime)
         in (optimizedStart, optimizedEnd)))"

subsection \<open>Effects\<close>

text \<open>
  The calls that leave the script are recorded in a trace. The event source is a parameter
  of the functions below: given a calendar id and a window it returns the events the
  calendar holds at the time of the call. Its type lets it raise, and the \<open>catch\<close> block of
  \<open>checkTimeSlotsAvailability\<close> is modelled for that case; the event source of the
  repository, \<open>AdvancedCalendarService.getEvents\<close>, is modelled further down and never
  raises, so with it that block is never entered.
\<close>

type_synonym row = "jsstring \<times> jsstring \<times> jsstring \<times> jsstring"

datatype action =
    WaitLock
  | ReleaseLock
  | GetEvents jsstring jsdate jsdate
  | AppendRow row

type_synonym calendar_source = "jsstring \<Rightarrow> jsdate \<Rightarrow> jsdate \<Rightarrow> error + event list"

definition failed_record :: "error \<Rightarrow> availability" where
  "failed_record err =
     \<lparr>available = False, conflictCount = - 1, conflictingEvents = [], reason = CheckFailed err\<rparr>"

fun fail_all :: "error \<Rightarrow> timeslot list \<Rightarrow> (timeslot \<rightharpoonup> availability) \<Rightarrow> (timeslot \<rightharpoonup> availability)" where
  "fail_all err [] availability = availability"
| "fail_all err (slot # rest) availability = fail_all err rest (availability(slot \<mapsto> failed_record err))"

fun check_all ::
  "event list \<Rightarrow> jsdate \<Rightarrow> ymd \<Rightarrow> timeslot list \<Rightarrow> (timeslot \<rightharpoonup> availability) \<Rightarrow> (timeslot \<rightharpoonup> availability)" where
  "check_all events date queryDateStr [] availability = availability"
| "check_all events date queryDateStr (timeSlot # rest) availability =
     check_all events date queryDateStr rest
       (availability(timeSlot \<mapsto> checkSingleTimeSlotAvailability events timeSlot date queryDateStr))"

definition checkTimeSlotsAvailability ::
  "calendar_source \<Rightarrow> jsdate \<Rightarrow> ymd \<Rightarrow> timeslot list \<Rightarrow> jsstring
     \<Rightarrow> (timeslot \<rightharpoonup> availability) \<times> action list" where
  "checkTimeSlotsAvailability getEvents date dateStr timeSlots calendarId =
     (let range = getOptimizedQueryRange dateStr
      in case getEvents calendarId (fst range) (snd range) of
           Inl err \<Rightarrow>
             (fail_all err timeSlots Map.empty, [GetEvents calendarId (fst range) (snd range)])
         | Inr events \<Rightarrow>
             (check_all events date dateStr timeSlots Map.empty,
              [GetEvents calendarId (fst range) (snd range)]))"


section \<open>Booking commit (bookingService.gs)\<close>

text \<open>
  The script properties read through \<open>getConfigValue\<close>. The getter
  \<open>CALENDAR_CONFIG.calendarId\<close> throws when the property is unset or empty.
\<close>

record config =
  GOOGLE_CALENDAR_ID :: "jsstring option"
  GOOGLE_TIMESLOTS_CALENDAR_ID :: "jsstring option"

definition falsy :: "jsstring option \<Rightarrow> bool" where
  "falsy v = (v = None \<or> v = Some [])"

definition calendarId :: "config \<Rightarrow> error + jsstring" where
  "calendarId cfg =
     (case GOOGLE_CALENDAR_ID cfg of
        None \<Rightarrow> Inl ConfigError
      | Some v \<Rightarrow> if v = [] then Inl ConfigError else Inr v)"

definition timeSlotsCalendarId :: "config \<Rightarrow> error + jsstring" where
  "timeSlotsCalendarId cfg =
     (case GOOGLE_TIMESLOTS_CALENDAR_ID cfg of
        None \<Rightarrow> calendarId cfg
      | Some v \<Rightarrow> if v = [] then calendarId cfg else Inr v)"

definition PLACEHOLDER_CALENDAR_ID :: jsstring where
  "PLACEHOLDER_CALENDAR_ID = ascii ''YOUR_CALENDAR_ID@gmail.com''"

datatype errorCode =
    TIME_SLOT_CHECK_FAILED
  | MISSING_SLOT_PARAMS
  | CALENDAR_NOT_CONFIGURED
  | SLOT_STATUS_MISSING
  | TIME_SLOT_CONFLICT
  | TIME_SLOT_UNAVAILABLE

text \<open>
  The response of \<open>verifyBackendTimeSlotAvailability\<close>. Its fields \<open>available\<close>,
  \<open>errorCode\<close> and \<open>slotStatus\<close> carry the prefix \<open>v_\<close> here. The arguments are the
  date and time strings, \<open>None\<close> standing for a missing or empty one.
\<close>

record verification =
  v_available :: bool
  v_errorCode :: "errorCode option"
  v_slotStatus :: "availability option"

definition defaultResponse :: "errorCode \<Rightarrow> verification" where
  "defaultResponse code = \<lparr>v_available = False, v_errorCode = Some code, v_slotStatus = None\<rparr>"

definition verifyBackendTimeSlotAvailability ::
  "config \<Rightarrow> calendar_source \<Rightarrow> ymd option \<Rightarrow> timeslot option \<Rightarrow> verification \<times> action list" where
  "verifyBackendTimeSlotAvailability cfg getEvents dateStr timeStr =
     (case dateStr of
        None \<Rightarrow> (defaultResponse MISSING_SLOT_PARAMS, [])
      | Some d \<Rightarrow>
     (case timeStr of
        None \<Rightarrow> (defaultResponse MISSING_SLOT_PARAMS, [])
      | Some t \<Rightarrow>
     (case calendarId cfg of
        Inl err \<Rightarrow> (defaultResponse TIME_SLOT_CHECK_FAILED, [])
      | Inr cal \<Rightarrow>
          if cal = PLACEHOLDER_CALENDAR_ID then (defaultResponse CALENDAR_NOT_CONFIGURED, [])
          else
            (let queryDate = iso_taipei d 0 0 0;
                 checked = checkTimeSlotsAvailability getEvents queryDate d [t] cal
             in case fst checked t of
                  None \<Rightarrow> (defaultResponse SLOT_STATUS_MISSING, snd checked)
                | Some slotStatus \<Rightarrow>
                    (\<lparr>v_available = available slotStatus,
                      v_errorCode = (if available slotStatus then None else Some TIME_SLOT_CONFLICT),
                      v_slotStatus = Some slotStatus\<rparr>, snd checked)))))"

subsection \<open>Validation of the submitted booking\<close>

definition is_digit :: "int \<Rightarrow> bool" where
  "is_digit c = (48 \<le> c \<and> c \<le> 57)"

definition digit_val :: "int \<Rightarrow> nat" where
  "digit_val c = nat (c - 48)"

definition dec_val :: "jsstring \<Rightarrow> nat" where
  "dec_val s = foldl (\<lambda>acc c. 10 * acc + digit_val c) 0 s"

text \<open>\<open>/^\d{4}-\d{2}-\d{2}$/\<close> and \<open>/[TZ]/i\<close>.\<close>

definition DATE_REGEX_test :: "jsstring \<Rightarrow> bool" where
  "DATE_REGEX_test s =
     (length s = 10 \<and> is_digit (s ! 0) \<and> is_digit (s ! 1) \<and> is_digit (s ! 2) \<and> is_digit (s ! 3)
      \<and> s ! 4 = 45 \<and> is_digit (s ! 5) \<and> is_digit (s ! 6)
      \<and> s ! 7 = 45 \<and> is_digit (s ! 8) \<and> is_digit (s ! 9))"

definition TZ_test :: "jsstring \<Rightarrow> bool" where
  "TZ_test s = (\<exists>c \<in> set s. c = 84 \<or> c = 90 \<or> c = 116 \<or> c = 122)"

text \<open>\<open>SYSTEM_CONFIG.TIME_FORMAT_REGEX = /^([01]?\d|2[0-3]):[0-5]\d$/\<close>.\<close>

definition TIME_FORMAT_REGEX_test :: "jsstring \<Rightarrow> bool" where
  "TIME_FORMAT_REGEX_test s =
     (length s = 4 \<and> is_digit (s ! 0) \<and> s ! 1 = 58 \<and> 48 \<le> s ! 2 \<and> s ! 2 \<le> 53 \<and> is_digit (s ! 3)
      \<or> length s = 5
        \<and> ((s ! 0 = 48 \<or> s ! 0 = 49) \<and> is_digit (s ! 1) \<or> s ! 0 = 50 \<and> 48 \<le> s ! 1 \<and> s ! 1 \<le> 51)
        \<and> s ! 2 = 58 \<and> 48 \<le> s ! 3 \<and> s ! 3 \<le> 53 \<and> is_digit (s ! 4))"

text \<open>The fields of a date string and of a time string that passed the tests above.\<close>

definition date_fields :: "jsstring \<Rightarrow> ymd" where
  "date_fields s =
     (int (dec_val (take 4 s)), int (dec_val (take 2 (drop 5 s))), int (dec_val (take 2 (drop 8 s))))"

definition time_fields :: "jsstring \<Rightarrow> timeslot" where
  "time_fields s = (dec_val (takeWhile (\<lambda>c. c \<noteq> 58) s), dec_val (tl (dropWhile (\<lambda>c. c \<noteq> 58) s)))"

record booking =
  customerName :: "jsstring option"
  phone :: "jsstring option"
  date :: "jsstring option"
  time :: "jsstring option"

datatype field = F_customerName | F_phone | F_date | F_time

datatype validation_error =
    MissingField field
  | InvalidDateFormat
  | InvalidTimeFormat

definition validate_booking :: "booking \<Rightarrow> validation_error option" where
  "validate_booking b =
     (if falsy (customerName b) then Some (MissingField F_customerName)
      else if falsy (phone b) then Some (MissingField F_phone)
      else if falsy (date b) then Some (MissingField F_date)
      else if falsy (time b) then Some (MissingField F_time)
      else if \<not> DATE_REGEX_test (the (date b)) \<or> TZ_test (the (date b)) then Some InvalidDateFormat
      else if \<not> TIME_FORMAT_REGEX_test (the (time b)) then Some InvalidTimeFormat
      else None)"

subsection \<open>\<open>handleSaveBooking\<close>\<close>

text \<open>
  The world the handler runs in: whether the document lock can be obtained within the 30
  seconds of \<open>waitLock\<close>, the configuration, the calendar, and the rows of the booking sheet.
  The handler returns its result, the trace of its outside calls, and the sheet afterwards.
  The submission is an object whose required fields are strings or missing. A row keeps
  columns 2 to 5 of \<open>rowData\<close> (name, phone, date, time) as the code fills them: the phone
  is passed to \<open>appendRow\<close> behind an apostrophe and the date as
  \<open>year\<close>, \<open>U+5E74\<close>, \<open>month\<close>, \<open>U+6708\<close>, \<open>day\<close>, \<open>U+65E5\<close>; the phone cell is then
  set to the bare phone, which is what the sheet holds afterwards. The result of a saved
  booking carries \<open>bookingData\<close>, the fields as submitted. The other columns, looking up
  the sheet and the customer between the check and the append, and the steps after the row
  is appended (customer counters, calendar event, notifications) are not part of the model.
  A validation error is thrown inside the \<open>try\<close> block, rethrown by its \<open>catch\<close>, and the
  \<open>finally\<close> releases the lock.
\<close>

fun decimal :: "nat \<Rightarrow> jsstring" where
  "decimal n = (if n < 10 then [48 + int n] else decimal (n div 10) @ [48 + int (n mod 10)])"

declare decimal.simps [simp del]

definition formattedDate :: "jsstring \<Rightarrow> jsstring" where
  "formattedDate d =
     decimal (dec_val (take 4 d)) @ [24180] @ decimal (dec_val (take 2 (drop 5 d))) @ [26376]
     @ decimal (dec_val (take 2 (drop 8 d))) @ [26085]"

record world =
  lock_available :: bool
  cfg :: config
  calendar :: calendar_source
  sheet :: "row list"

datatype save_result =
    LOCK_TIMEOUT
  | Thrown validation_error
  | SlotUnavailable errorCode "availability option"
  | Saved row

definition handleSaveBooking :: "world \<Rightarrow> booking \<Rightarrow> save_result \<times> action list \<times> row list" where
  "handleSaveBooking w b =
     (if \<not> lock_available w then (LOCK_TIMEOUT, [WaitLock], sheet w)
      else
        (case validate_booking b of
           Some err \<Rightarrow> (Thrown err, [WaitLock, ReleaseLock], sheet w)
         | None \<Rightarrow>
             (let backendSlotCheck =
                    verifyBackendTimeSlotAvailability (cfg w) (calendar w)
                      (Some (date_fields (the (date b)))) (Some (time_fields (the (time b))))
              in if \<not> v_available (fst backendSlotCheck)
                 then (SlotUnavailable
                         (case v_errorCode (fst backendSlotCheck) of
                            None \<Rightarrow> TIME_SLOT_UNAVAILABLE | Some c \<Rightarrow> c)
                         (v_slotStatus (fst backendSlotCheck)),
                       [WaitLock] @ snd backendSlotCheck @ [ReleaseLock], sheet w)
                 else
                   (let rowData = (the (customerName b), 39 # the (phone b),
                                   formattedDate (the (date b)), the (time b));
                        stored = (the (customerName b), the (phone b),
                                  formattedDate (the (date b)), the (time b));
                        bookingData = (the (customerName b), the (phone b), the (date b), the (time b))
                    in (Saved bookingData,
                        [WaitLock] @ snd backendSlotCheck @ [AppendRow rowData, ReleaseLock],
                        sheet w @ [stored])))))"

section \<open>Sample calendar contents\<close>

text \<open>
  Three events on the booking calendar: one from 21:30 to 23:45 on 2025-07-15, one from 23:00
  on 2025-07-14 to 02:00 on 2025-07-15, and one whose start and end did not parse.
\<close>

definition late_booking :: event where
  "late_booking =
     \<lparr>getTitle = ascii ''booking'', getStartTime = iso_taipei (2025, 7, 15) 21 30 0,
      getEndTime = iso_taipei (2025, 7, 15) 23 45 0\<rparr>"

definition overnight_booking :: event where
  "overnight_booking =
     \<lparr>getTitle = ascii ''overnight'', getStartTime = iso_taipei (2025, 7, 14) 23 0 0,
      getEndTime = iso_taipei (2025, 7, 15) 2 0 0\<rparr>"

definition broken_event :: event where
  "broken_event = \<lparr>getTitle = [], getStartTime = None, getEndTime = None\<rparr>"

definition afternoon_booking :: event where
  "afternoon_booking =
     \<lparr>getTitle = ascii ''booking'', getStartTime = iso_taipei (2025, 7, 15) 14 0 0,
      getEndTime = iso_taipei (2025, 7, 15) 15 0 0\<rparr>"

text \<open>Calendar sources: an empty calendar, and one that holds the 14:00 booking.\<close>

definition empty_calendar :: calendar_source where
  "empty_calendar cal s e = Inr []"

definition busy_calendar :: calendar_source where
  "busy_calendar cal s e = Inr [afternoon_booking]"

definition configured :: config where
  "configured =
     \<lparr>GOOGLE_CALENDAR_ID = Some (ascii ''bookings''),
      GOOGLE_TIMESLOTS_CALENDAR_ID = Some (ascii ''slots'')\<rparr>"

definition unconfigured :: config where
  "unconfigured = \<lparr>GOOGLE_CALENDAR_ID = None, GOOGLE_TIMESLOTS_CALENDAR_ID = None\<rparr>"

text \<open>Two submissions, one complete and one without a customer name, and three worlds.\<close>

definition sample_booking :: booking where
  "sample_booking =
     \<lparr>customerName = Some (ascii ''Lin''), phone = Some (ascii ''0912345678''),
      date = Some (ascii ''2025-07-15''), time = Some (ascii ''14:00'')\<rparr>"

definition nameless_booking :: booking where
  "nameless_booking =
     \<lparr>customerName = None, phone = Some (ascii ''0912345678''),
      date = Some (ascii ''2025-07-15''), time = Some (ascii ''14:00'')\<rparr>"

definition busy_world :: world where
  "busy_world = \<lparr>lock_available = True, cfg = configured, calendar = busy_calendar, sheet = []\<rparr>"

definition free_world :: world where
  "free_world = \<lparr>lock_available = True, cfg = configured, calendar = empty_calendar, sheet = []\<rparr>"

definition contended_world :: world where
  "contended_world =
     \<lparr>lock_available = False, cfg = configured, calendar = empty_calendar, sheet = []\<rparr>"

section \<open>Time-slot extractor (timeslotService.gs)\<close>

text \<open>
  The code units the patterns mention: the colon, the hour suffixes
  \<open>U+9EDE\<close> and \<open>U+6642\<close>, and the two-character markers for morning (\<open>U+4E0A U+5348\<close>),
  afternoon (\<open>U+4E0B U+5348\<close>) and evening (\<open>U+665A U+4E0A\<close>).
\<close>

definition COLON :: int where "COLON = 58"
definition DIAN :: int where "DIAN = 40670"
definition SHI :: int where "SHI = 26178"
definition marker_morning :: jsstring where "marker_morning = [19978, 21320]"
definition marker_afternoon :: jsstring where "marker_afternoon = [19979, 21320]"
definition marker_evening :: jsstring where "marker_evening = [26202, 19978]"

text \<open>The class \<open>\s\<close> of a JavaScript regular expression.\<close>

definition is_space :: "int \<Rightarrow> bool" where
  "is_space c =
     (c = 9 \<or> c = 10 \<or> c = 11 \<or> c = 12 \<or> c = 13 \<or> c = 32 \<or> c = 160 \<or> c = 5760
      \<or> (8192 \<le> c \<and> c \<le> 8202) \<or> c = 8232 \<or> c = 8233 \<or> c = 8239 \<or> c = 8287
      \<or> c = 12288 \<or> c = 65279)"

text \<open>
  \<open>(\d{1,2})\<close> at the head of a string: the ways it can match, in the order a backtracking
  matcher tries them (two digits first), each with the number read and the rest of the string.
\<close>

fun digits12 :: "jsstring \<Rightarrow> (nat \<times> jsstring) list" where
  "digits12 (a # b # rest) =
     (if is_digit a
      then (if is_digit b
            then [(10 * digit_val a + digit_val b, rest), (digit_val a, b # rest)]
            else [(digit_val a, b # rest)])
      else [])"
| "digits12 [a] = (if is_digit a then [(digit_val a, [])] else [])"
| "digits12 [] = []"

text \<open>\<open>(\d{2})\<close>, and \<open>(\d{2})?\<close>, which never fails.\<close>

fun digits2 :: "jsstring \<Rightarrow> (nat \<times> jsstring) option" where
  "digits2 (a # b # rest) =
     (if is_digit a \<and> is_digit b then Some (10 * digit_val a + digit_val b, rest) else None)"
| "digits2 [a] = None"
| "digits2 [] = None"

definition opt_digits2 :: "jsstring \<Rightarrow> nat option \<times> jsstring" where
  "opt_digits2 s = (case digits2 s of Some (m, rest) \<Rightarrow> (Some m, rest) | None \<Rightarrow> (None, s))"

text \<open>
  A match carries \<open>parseInt(match[1])\<close> and, when the second group took part,
  \<open>parseInt(match[2])\<close>. A pattern applied at the head of a string gives the match and
  the rest of the string behind it.
\<close>

type_synonym regex_match = "nat \<times> nat option"
type_synonym pattern = "jsstring \<Rightarrow> (regex_match \<times> jsstring) option"

fun first_match :: "('a \<Rightarrow> 'b option) \<Rightarrow> 'a list \<Rightarrow> 'b option" where
  "first_match k [] = None"
| "first_match k (x # xs) = (case k x of Some y \<Rightarrow> Some y | None \<Rightarrow> first_match k xs)"

text \<open>\<open>/(\d{1,2}):(\d{2})/\<close>\<close>

definition pat_hh_mm :: pattern where
  "pat_hh_mm s =
     first_match
       (\<lambda>hr. case snd hr of
                [] \<Rightarrow> None
              | c # r \<Rightarrow>
                  if c = COLON
                  then (case digits2 r of
                          None \<Rightarrow> None
                        | Some mr \<Rightarrow> Some ((fst hr, Some (fst mr)), snd mr))
                  else None)
       (digits12 s)"

text \<open>\<open>/(\d{1,2})X(\d{2})?/\<close> for the hour suffix \<open>X\<close>.\<close>

definition pat_hh_suffix :: "int \<Rightarrow> pattern" where
  "pat_hh_suffix suffix s =
     first_match
       (\<lambda>hr. case snd hr of
                [] \<Rightarrow> None
              | c # r \<Rightarrow>
                  if c = suffix then Some ((fst hr, fst (opt_digits2 r)), snd (opt_digits2 r))
                  else None)
       (digits12 s)"

text \<open>
  \<open>/M\s*(\d{1,2}):?(\d{2})?/\<close> for a marker \<open>M\<close>. Everything behind the hour is optional,
  so the first way of reading the hour is the one taken.
\<close>

definition opt_colon :: "jsstring \<Rightarrow> jsstring" where
  "opt_colon s = (case s of [] \<Rightarrow> [] | c # r \<Rightarrow> if c = COLON then r else c # r)"

definition pat_marker :: "jsstring \<Rightarrow> pattern" where
  "pat_marker marker s =
     (if take (length marker) s = marker
      then (case digits12 (dropWhile is_space (drop (length marker) s)) of
              [] \<Rightarrow> None
            | hr # alternatives \<Rightarrow>
                Some ((fst hr, fst (opt_digits2 (opt_colon (snd hr)))),
                      snd (opt_digits2 (opt_colon (snd hr)))))
      else None)"

definition timePatterns :: "pattern list" where
  "timePatterns =
     [pat_hh_mm, pat_hh_suffix DIAN, pat_hh_suffix SHI,
      pat_marker marker_morning, pat_marker marker_afternoon, pat_marker marker_evening]"

text \<open>
  The loop \<open>while ((match = pattern.exec(title)) !== null)\<close> of a global pattern: the
  leftmost match at or behind the last index, then on from the end of that match. Every
  pattern above consumes at least one code unit, so the rest is always shorter and the
  last branch is never taken.
\<close>

fun all_matches :: "pattern \<Rightarrow> jsstring \<Rightarrow> regex_match list" where
  "all_matches p [] = []"
| "all_matches p (c # cs) =
     (case p (c # cs) of
        None \<Rightarrow> all_matches p cs
      | Some mr \<Rightarrow>
          if length (snd mr) \<le> length cs then fst mr # all_matches p (snd mr) else [fst mr])"

text \<open>\<open>title.includes(sub)\<close>\<close>

fun includes_str :: "jsstring \<Rightarrow> jsstring \<Rightarrow> bool" where
  "includes_str [] sub = (sub = [])"
| "includes_str (c # cs) sub = (take (length sub) (c # cs) = sub \<or> includes_str cs sub)"

text \<open>The 12-hour correction applied to every parsed hour.\<close>

definition corrected_hour :: "jsstring \<Rightarrow> nat \<Rightarrow> nat" where
  "corrected_hour title hour =
     (if includes_str title marker_afternoon \<and> hour < 12 then hour + 12
      else if includes_str title marker_morning \<and> hour = 12 then 0
      else hour)"

text \<open>
  A time string \<open>HH:MM\<close> is kept as the pair of its numbers; \<open>timeStr\<close> writes it out as
  \<open>String(hour).padStart(2, '0') + ':' + String(minute).padStart(2, '0')\<close> does. The set
  \<open>foundTimes\<close> is the list of its members in insertion order.
\<close>

definition time_of_match :: "jsstring \<Rightarrow> regex_match \<Rightarrow> timeslot" where
  "time_of_match title m =
     (corrected_hour title (fst m), (case snd m of None \<Rightarrow> 0 | Some minute \<Rightarrow> minute))"

definition set_add :: "'a \<Rightarrow> 'a list \<Rightarrow> 'a list" where
  "set_add x xs = (if x \<in> set xs then xs else xs @ [x])"

definition title_times :: "jsstring \<Rightarrow> timeslot list" where
  "title_times title =
     foldl (\<lambda>foundTimes p.
              foldl (\<lambda>foundTimes m. set_add (time_of_match title m) foundTimes)
                foundTimes (all_matches p title))
       [] timePatterns"

definition digit_char :: "nat \<Rightarrow> char" where
  "digit_char n = ''0123456789'' ! n"

definition padStart2 :: "nat \<Rightarrow> string" where
  "padStart2 n =
     (if n < 10 then [CHR ''0'', digit_char n]
      else if n < 100 then [digit_char (n div 10), digit_char (n mod 10)]
      else [digit_char (n div 100 mod 10), digit_char (n div 10 mod 10), digit_char (n mod 10)])"

definition timeStr :: "timeslot \<Rightarrow> string" where
  "timeStr ts = padStart2 (fst ts) @ '':'' @ padStart2 (snd ts)"

datatype period = Morning | Afternoon | Evening

definition period_of :: "nat \<Rightarrow> period" where
  "period_of hour =
     (if 6 \<le> hour \<and> hour < 12 then Morning
      else if 12 \<le> hour \<and> hour < 18 then Afternoon
      else Evening)"

record slot =
  slot_time :: timeslot
  slot_period :: period
  slot_available :: bool
  originalTitle :: jsstring

text \<open>
  \<open>getHours\<close> and \<open>getMinutes\<close> read a date in the time zone of the script, which is set
  in the project manifest; its offset from UTC in milliseconds is the parameter \<open>tz\<close>.
\<close>

definition getHours :: "int \<Rightarrow> int \<Rightarrow> nat" where
  "getHours tz t = nat (((t + tz) div MS_PER_HOUR) mod 24)"

definition getMinutes :: "int \<Rightarrow> int \<Rightarrow> nat" where
  "getMinutes tz t = nat (((t + tz) div 60000) mod 60)"

definition make_slot :: "jsstring \<Rightarrow> timeslot \<Rightarrow> slot" where
  "make_slot title ts =
     \<lparr>slot_time = ts, slot_period = period_of (fst ts), slot_available = True,
      originalTitle = title\<rparr>"

text \<open>
  \<open>extractTimeSlotsFromTitle\<close>. The start time is \<open>None\<close> when the caller passes none.
  Nothing in the body of the \<open>try\<close> raises on a string title, so the function returns the
  slots it built.
\<close>

definition extractTimeSlotsFromTitle :: "int \<Rightarrow> jsstring \<Rightarrow> int option \<Rightarrow> slot list" where
  "extractTimeSlotsFromTitle tz title eventStartTime =
     (let foundTimes = title_times title;
          foundTimes =
            (if foundTimes = []
             then (case eventStartTime of
                     None \<Rightarrow> []
                   | Some t \<Rightarrow> [(getHours tz t, getMinutes tz t)])
             else foundTimes)
      in map (make_slot title) foundTimes)"

text \<open>Titles: \<open>afternoon 2:00\<close>, \<open>evening 6 o'clock\<close> and \<open>evening 8:00\<close> in Chinese, and one without a time.\<close>

definition title_afternoon_2 :: jsstring where
  "title_afternoon_2 = marker_afternoon @ ascii ''2:00''"

definition title_evening_6 :: jsstring where
  "title_evening_6 = marker_evening @ ascii ''6'' @ [DIAN]"

definition title_evening_8 :: jsstring where
  "title_evening_8 = marker_evening @ ascii ''8:00''"

definition title_plain :: jsstring where
  "title_plain = ascii ''open for booking''"

section \<open>Paginated calendar query (calendarService.gs)\<close>

text \<open>
  The response of \<open>Calendar.Events.list\<close>, and the call itself with everything but the page
  token fixed: it returns a page or raises. A page token is truthy when it is present and
  not empty.
\<close>

record page =
  items :: "event list"
  nextPageToken :: "jsstring option"

type_synonym events_list = "jsstring option \<Rightarrow> error + page"

text \<open>
  The \<open>do \<dots> while (pageToken)\<close> loop of \<open>executePaginatedQuery\<close>. The arguments are the
  loop variables on entry to the body, and the page tokens requested so far; the result is
  \<open>allEvents\<close> and the page tokens requested, one for each call of the API.
\<close>

function paginate ::
  "events_list \<Rightarrow> jsstring option \<Rightarrow> nat \<Rightarrow> event list \<Rightarrow> jsstring option list
     \<Rightarrow> event list \<times> jsstring option list" where
  "paginate list_api pageToken pageCount allEvents requested =
     (case list_api pageToken of
        Inl err \<Rightarrow> (allEvents, requested @ [pageToken])
      | Inr response \<Rightarrow>
          if Suc pageCount > 20
          then (allEvents @ items response, requested @ [pageToken])
          else if \<not> falsy (nextPageToken response)
          then paginate list_api (nextPageToken response) (Suc pageCount)
                 (allEvents @ items response) (requested @ [pageToken])
          else (allEvents @ items response, requested @ [pageToken]))"
  by pat_completeness auto
termination
  by (relation "measure (\<lambda>(list_api, pageToken, pageCount, allEvents, requested). 21 - pageCount)")
     auto

declare paginate.simps [simp del]

definition executePaginatedQuery :: "events_list \<Rightarrow> event list \<times> jsstring option list" where
  "executePaginatedQuery list_api = paginate list_api None 0 [] []"

text \<open>A calendar that answers every request with one event and a further page token.\<close>

definition endless_pages :: events_list where
  "endless_pages pageToken = Inr \<lparr>items = [afternoon_booking], nextPageToken = Some (ascii ''more'')\<rparr>"

section \<open>Batch availability (timeslotService.gs)\<close>

text \<open>
  \<open>new Date('YYYY-MM-DD')\<close> is midnight UTC of that date when the fields are in range.
  With a field out of range the string is not an ISO date; \<open>date_only_utc\<close> then gives the
  Invalid Date, although V8 may still read some such strings with its legacy parser, and
  every statement below about the handler assumes the fields in range.
  \<open>setHours(h, m, 0, 0)\<close> moves a date to the given time of its day in the script's time
  zone, taken to have a fixed offset.
\<close>

definition date_only_utc :: "ymd \<Rightarrow> jsdate" where
  "date_only_utc d = (if date_fields_ok d then Some (days_from_civil d * MS_PER_DAY) else None)"

definition setHours :: "int \<Rightarrow> jsdate \<Rightarrow> nat \<Rightarrow> nat \<Rightarrow> jsdate" where
  "setHours tz d h m =
     (case d of
        None \<Rightarrow> None
      | Some t \<Rightarrow> Some (t - (t + tz) mod MS_PER_DAY + int h * MS_PER_HOUR + int m * 60000))"

definition ceil_div :: "int \<Rightarrow> int \<Rightarrow> int" where
  "ceil_div a b = - ((- a) div b)"

definition maxDays :: int where "maxDays = 62"

text \<open>\<open>getOptimizedQueryRangeBatch\<close> (utils.gs).\<close>

definition getOptimizedQueryRangeBatch :: "int \<Rightarrow> ymd \<Rightarrow> ymd \<Rightarrow> jsdate \<times> jsdate" where
  "getOptimizedQueryRangeBatch tz startDateStr endDateStr =
     (let startDate = iso_taipei startDateStr 0 0 0;
          endDate = iso_taipei endDateStr 23 59 59;
          batchStartTime = setHours tz startDate (fst businessHours_start) (snd businessHours_start);
          batchEndTime = setHours tz endDate (fst businessHours_end) (snd businessHours_end)
      in (batchStartTime, batchEndTime))"

text \<open>
  Grouping the fetched events by the Taipei date of their start, for the dates between the
  start and the end of the range (compared as strings, that is, field by field).
\<close>

definition bucket :: "(ymd \<rightharpoonup> event list) \<Rightarrow> ymd \<Rightarrow> event list" where
  "bucket byDate d = (case byDate d of None \<Rightarrow> [] | Some evs \<Rightarrow> evs)"

fun group_by_date ::
  "ymd \<Rightarrow> ymd \<Rightarrow> event list \<Rightarrow> (ymd \<rightharpoonup> event list) \<Rightarrow> error + (ymd \<rightharpoonup> event list)" where
  "group_by_date startDate endDate [] byDate = Inr byDate"
| "group_by_date startDate endDate (ev # evs) byDate =
     (case getTaipeiDateString (getStartTime ev) of
        Inl err \<Rightarrow> Inl err
      | Inr eventDateStr \<Rightarrow>
          if startDate \<le> eventDateStr \<and> eventDateStr \<le> endDate
          then group_by_date startDate endDate evs
                 (byDate(eventDateStr \<mapsto> bucket byDate eventDateStr @ [ev]))
          else group_by_date startDate endDate evs byDate)"

text \<open>
  \<open>extractTimeSlotsFromEvents\<close>: the slots of the events of one date, the first slot of
  each time kept, sorted by time string. An event whose start is not a date makes
  \<open>getTaipeiDateString\<close> throw; the function then returns the empty list.
\<close>

fun add_new_slots :: "slot list \<Rightarrow> slot list \<Rightarrow> slot list" where
  "add_new_slots availableSlots [] = availableSlots"
| "add_new_slots availableSlots (s # timeSlots) =
     (if \<exists>existing \<in> set availableSlots. slot_time existing = slot_time s
      then add_new_slots availableSlots timeSlots
      else add_new_slots (availableSlots @ [s]) timeSlots)"

fun collect_slots :: "int \<Rightarrow> ymd \<Rightarrow> event list \<Rightarrow> slot list \<Rightarrow> error + slot list" where
  "collect_slots tz dateStr [] availableSlots = Inr availableSlots"
| "collect_slots tz dateStr (ev # evs) availableSlots =
     (case getTaipeiDateString (getStartTime ev) of
        Inl err \<Rightarrow> Inl err
      | Inr eventDateStr \<Rightarrow>
          if eventDateStr = dateStr
          then collect_slots tz dateStr evs
                 (add_new_slots availableSlots
                    (extractTimeSlotsFromTitle tz (getTitle ev) (getStartTime ev)))
          else collect_slots tz dateStr evs availableSlots)"

definition extractTimeSlotsFromEvents :: "int \<Rightarrow> event list \<Rightarrow> ymd \<Rightarrow> slot list" where
  "extractTimeSlotsFromEvents tz events dateStr =
     (case collect_slots tz dateStr events [] of
        Inl err \<Rightarrow> []
      | Inr availableSlots \<Rightarrow> sort_key slot_time availableSlots)"

fun checkTimeSlotsAvailabilityFromEvents ::
  "event list \<Rightarrow> timeslot list \<Rightarrow> jsdate \<Rightarrow> ymd \<Rightarrow> (timeslot \<rightharpoonup> availability)
     \<Rightarrow> (timeslot \<rightharpoonup> availability)" where
  "checkTimeSlotsAvailabilityFromEvents bookingEvents [] queryDate queryDateStr availability =
     availability"
| "checkTimeSlotsAvailabilityFromEvents bookingEvents (timeSlot # rest) queryDate queryDateStr availability =
     checkTimeSlotsAvailabilityFromEvents bookingEvents rest queryDate queryDateStr
       (availability(timeSlot \<mapsto>
          checkSingleTimeSlotAvailabilityFromEvents bookingEvents timeSlot queryDate queryDateStr))"

text \<open>One day of the loop over the dates of the range.\<close>

definition process_day ::
  "int \<Rightarrow> (ymd \<rightharpoonup> event list) \<Rightarrow> (ymd \<rightharpoonup> event list) \<Rightarrow> int \<Rightarrow> ymd
     \<Rightarrow> (timeslot \<rightharpoonup> availability)" where
  "process_day tz timeSlotsByDate bookingsByDate currentDate dateStr =
     (let dayTimeSlotsEvents = bucket timeSlotsByDate dateStr;
          availableSlots = extractTimeSlotsFromEvents tz dayTimeSlotsEvents dateStr
      in if availableSlots = [] then Map.empty
         else checkTimeSlotsAvailabilityFromEvents (bucket bookingsByDate dateStr)
                (map slot_time availableSlots) (Some currentDate) dateStr Map.empty)"

text \<open>
  The loop \<open>for (currentDate = new Date(start); currentDate <= end; setDate(getDate() + 1))\<close>;
  a day of a time zone with a fixed offset has 24 hours.
\<close>

function day_loop ::
  "int \<Rightarrow> (ymd \<rightharpoonup> event list) \<Rightarrow> (ymd \<rightharpoonup> event list) \<Rightarrow> int \<Rightarrow> int
     \<Rightarrow> (ymd \<rightharpoonup> (timeslot \<rightharpoonup> availability)) \<Rightarrow> (ymd \<rightharpoonup> (timeslot \<rightharpoonup> availability))" where
  "day_loop tz timeSlotsByDate bookingsByDate currentDate end result =
     (if currentDate \<le> end
      then day_loop tz timeSlotsByDate bookingsByDate (currentDate + MS_PER_DAY) end
             (result(civil_from_days ((currentDate + UTC_OFFSET_MS) div MS_PER_DAY) \<mapsto>
                process_day tz timeSlotsByDate bookingsByDate currentDate
                  (civil_from_days ((currentDate + UTC_OFFSET_MS) div MS_PER_DAY))))
      else result)"
  by pat_completeness auto
termination
  by (relation "measure (\<lambda>(tz, ts, bk, currentDate, end, result). nat (end - currentDate + 1))")
     (auto simp: MS_PER_DAY_def)

declare day_loop.simps [simp del]

datatype batch_error =
    DateFormatError
  | InvalidDate
  | StartAfterEnd
  | RangeTooLarge int
  | Raised error

datatype batch_result =
    BatchFailure batch_error
  | BatchNotConfigured
  | BatchSuccess "ymd \<rightharpoonup> (timeslot \<rightharpoonup> availability)"

text \<open>
  \<open>handleBatchCheckTimeSlotAvailability\<close>: the result and the trace of the fetches. Every
  \<open>throw\<close> of the body is caught by the handler and returned as a failure.
\<close>

definition handleBatchCheckTimeSlotAvailability ::
  "int \<Rightarrow> config \<Rightarrow> calendar_source \<Rightarrow> jsstring \<Rightarrow> jsstring \<Rightarrow> batch_result \<times> action list" where
  "handleBatchCheckTimeSlotAvailability tz c getEvents startDate endDate =
     (if \<not> DATE_REGEX_test startDate \<or> \<not> DATE_REGEX_test endDate
      then (BatchFailure DateFormatError, [])
      else
     (case date_only_utc (date_fields startDate) of
        None \<Rightarrow> (BatchFailure InvalidDate, [])
      | Some start \<Rightarrow>
     (case date_only_utc (date_fields endDate) of
        None \<Rightarrow> (BatchFailure InvalidDate, [])
      | Some end \<Rightarrow>
          if start > end then (BatchFailure StartAfterEnd, [])
          else if ceil_div (end - start) MS_PER_DAY > maxDays
          then (BatchFailure (RangeTooLarge maxDays), [])
          else
     (case timeSlotsCalendarId c of
        Inl err \<Rightarrow> (BatchFailure (Raised err), [])
      | Inr timeSlotsCal \<Rightarrow>
     (case calendarId c of
        Inl err \<Rightarrow> (BatchFailure (Raised err), [])
      | Inr bookingCal \<Rightarrow>
          if timeSlotsCal = [] \<or> bookingCal = [] then (BatchNotConfigured, [])
          else
            (let range = getOptimizedQueryRangeBatch tz (date_fields startDate) (date_fields endDate);
                 fetch1 = GetEvents timeSlotsCal (fst range) (snd range);
                 fetch2 = GetEvents bookingCal (fst range) (snd range)
             in
     (case getEvents timeSlotsCal (fst range) (snd range) of
        Inl err \<Rightarrow> (BatchFailure (Raised err), [fetch1])
      | Inr timeSlotsEvents \<Rightarrow>
     (case getEvents bookingCal (fst range) (snd range) of
        Inl err \<Rightarrow> (BatchFailure (Raised err), [fetch1, fetch2])
      | Inr bookingEvents \<Rightarrow>
     (case group_by_date (date_fields startDate) (date_fields endDate) timeSlotsEvents Map.empty of
        Inl err \<Rightarrow> (BatchFailure (Raised err), [fetch1, fetch2])
      | Inr timeSlotsByDate \<Rightarrow>
     (case group_by_date (date_fields startDate) (date_fields endDate) bookingEvents Map.empty of
        Inl err \<Rightarrow> (BatchFailure (Raised err), [fetch1, fetch2])
      | Inr bookingsByDate \<Rightarrow>
          (BatchSuccess (day_loop tz timeSlotsByDate bookingsByDate start end Map.empty),
           [fetch1, fetch2])))))))))))"

text \<open>
  A calendar source for a two-calendar setup: the slot calendar offers \<open>afternoon 2:00\<close> on
  2025-07-15, the booking calendar holds the booking from 14:00 to 15:00 on that day.
\<close>

definition offer_afternoon :: event where
  "offer_afternoon =
     \<lparr>getTitle = title_afternoon_2, getStartTime = iso_taipei (2025, 7, 15) 9 0 0,
      getEndTime = iso_taipei (2025, 7, 15) 10 0 0\<rparr>"

definition two_calendars :: calendar_source where
  "two_calendars cal s e = (if cal = ascii ''slots'' then Inr [offer_afternoon] else Inr [afternoon_booking])"

text \<open>Reading one entry of a batch result.\<close>

definition batch_entry :: "batch_result \<Rightarrow> ymd \<Rightarrow> timeslot \<Rightarrow> availability option" where
  "batch_entry r d t =
     (case r of
        BatchSuccess byDate \<Rightarrow> (case byDate d of None \<Rightarrow> None | Some day \<Rightarrow> day t)
      | BatchFailure err \<Rightarrow> None
      | BatchNotConfigured \<Rightarrow> None)"

text \<open>
  \<open>getOptimizedQueryRangeBatch\<close> also counts the days of the range, for the reason string
  it returns: \<open>totalDays = Math.ceil((endDate - startDate) / day)\<close>, with the start at 00:00:00
  of the first date and the end at 23:59:59 of the last.
\<close>

definition batch_totalDays :: "ymd \<Rightarrow> ymd \<Rightarrow> int option" where
  "batch_totalDays startDateStr endDateStr =
     (case iso_taipei startDateStr 0 0 0 of
        None \<Rightarrow> None
      | Some startDate \<Rightarrow>
          (case iso_taipei endDateStr 23 59 59 of
             None \<Rightarrow> None
           | Some endDate \<Rightarrow> Some (ceil_div (endDate - startDate) MS_PER_DAY)))"

text \<open>Whether a batch result has an entry for a date.\<close>

definition batch_has_date :: "batch_result \<Rightarrow> ymd \<Rightarrow> bool" where
  "batch_has_date r d =
     (case r of
        BatchSuccess byDate \<Rightarrow> (case byDate d of None \<Rightarrow> False | Some day \<Rightarrow> True)
      | BatchFailure err \<Rightarrow> False
      | BatchNotConfigured \<Rightarrow> False)"

text \<open>The request for 2025-07-01 to 2025-09-01, and the one for a day more.\<close>

definition two_month_request :: "batch_result \<times> action list" where
  "two_month_request =
     handleBatchCheckTimeSlotAvailability UTC_OFFSET_MS configured empty_calendar
       (ascii ''2025-07-01'') (ascii ''2025-09-01'')"

definition longer_request :: "batch_result \<times> action list" where
  "longer_request =
     handleBatchCheckTimeSlotAvailability UTC_OFFSET_MS configured empty_calendar
       (ascii ''2025-07-01'') (ascii ''2025-09-02'')"

section \<open>Calendar event source (calendarService.gs)\<close>

text \<open>
  The two services of the platform that \<open>AdvancedCalendarService\<close> calls:
  \<open>Calendar.Events.list\<close> with the calendar id, \<open>timeMin\<close>, \<open>timeMax\<close>, \<open>maxResults\<close> and
  the page token, which returns a page or raises; and \<open>CalendarApp\<close>, whose
  \<open>getCalendarById(id).getEvents(start, end)\<close> returns the events, finds no calendar
  (\<open>None\<close>) or raises.
\<close>

record platform =
  Calendar_Events_list :: "jsstring \<Rightarrow> int \<Rightarrow> int \<Rightarrow> int \<Rightarrow> jsstring option \<Rightarrow> error + page"
  CalendarApp_getEvents :: "jsstring \<Rightarrow> jsdate \<Rightarrow> jsdate \<Rightarrow> error + event list option"

definition fallbackToCalendarApp :: "platform \<Rightarrow> jsstring \<Rightarrow> jsdate \<Rightarrow> jsdate \<Rightarrow> event list" where
  "fallbackToCalendarApp p cal startTime endTime =
     (case CalendarApp_getEvents p cal startTime endTime of
        Inl err \<Rightarrow> []
      | Inr found \<Rightarrow> (case found of None \<Rightarrow> [] | Some events \<Rightarrow> events))"

text \<open>
  \<open>getEventsDirectly\<close>: one request with \<open>maxResults = 2500\<close>. \<open>toISOString\<close> on an
  Invalid Date and a failure of the request both end in the \<open>catch\<close>, which falls back.
\<close>

definition getEventsDirectly :: "platform \<Rightarrow> jsstring \<Rightarrow> jsdate \<Rightarrow> jsdate \<Rightarrow> event list" where
  "getEventsDirectly p cal startTime endTime =
     (case startTime of
        None \<Rightarrow> fallbackToCalendarApp p cal startTime endTime
      | Some timeMin \<Rightarrow>
          (case endTime of
             None \<Rightarrow> fallbackToCalendarApp p cal startTime endTime
           | Some timeMax \<Rightarrow>
               (case Calendar_Events_list p cal timeMin timeMax 2500 None of
                  Inl err \<Rightarrow> fallbackToCalendarApp p cal startTime endTime
                | Inr response \<Rightarrow> items response)))"

text \<open>
  \<open>analyzeQueryComplexity\<close> and \<open>calculateOptimalPageSize\<close>. The estimate
  \<open>queryDays * 15 * 1.2\<close> is 18 for each day; the page size is followed in tenths through the
  factors 0.7 and 1.3 and rounded as \<open>Math.round\<close> does. None of the products falls on a
  half, so the floating-point computation gives these integers.
\<close>

definition shouldUsePagination :: "int \<Rightarrow> bool" where
  "shouldUsePagination queryDays = (queryDays > 30 \<or> 18 * queryDays > 200 \<or> 3 * queryDays > 90)"

definition calculateOptimalPageSize :: "int \<Rightarrow> int \<Rightarrow> int" where
  "calculateOptimalPageSize estimatedEvents queryDays =
     (let pageSize = (if estimatedEvents < 100 then min 300 (estimatedEvents + 20)
                      else if estimatedEvents < 300 then 150
                      else 100);
          tenths = (if queryDays > 60 then max 500 (7 * pageSize)
                    else if queryDays < 7 then min 3000 (13 * pageSize)
                    else 10 * pageSize)
      in max 50 (min 300 ((tenths + 5) div 10)))"

text \<open>
  \<open>AdvancedCalendarService.getEvents\<close> with smart pagination enabled: a paginated query for
  a long window, a direct one otherwise. With an Invalid Date as a bound the number of days
  is NaN and the direct query is chosen. Every failure inside is caught: the function
  returns a list of events in all cases.
\<close>

definition AdvancedCalendarService_getEvents ::
  "platform \<Rightarrow> jsstring \<Rightarrow> jsdate \<Rightarrow> jsdate \<Rightarrow> event list" where
  "AdvancedCalendarService_getEvents p cal startTime endTime =
     (case startTime of
        None \<Rightarrow> getEventsDirectly p cal startTime endTime
      | Some timeMin \<Rightarrow>
          (case endTime of
             None \<Rightarrow> getEventsDirectly p cal startTime endTime
           | Some timeMax \<Rightarrow>
               (let queryDays = ceil_div (timeMax - timeMin) MS_PER_DAY
                in if shouldUsePagination queryDays
                   then fst (executePaginatedQuery
                               (Calendar_Events_list p cal timeMin timeMax
                                  (calculateOptimalPageSize (18 * queryDays) queryDays)))
                   else getEventsDirectly p cal startTime endTime)))"

definition event_source :: "platform \<Rightarrow> calendar_source" where
  "event_source p cal startTime endTime = Inr (AdvancedCalendarService_getEvents p cal startTime endTime)"

text \<open>
  A platform on which the calendar cannot be reached: both services raise. The booking
  calendar may hold any events; none of them can be fetched.
\<close>

definition outage :: platform where
  "outage =
     \<lparr>Calendar_Events_list = (\<lambda>cal timeMin timeMax maxResults pageToken. Inl FetchError),
      CalendarApp_getEvents = (\<lambda>cal startTime endTime. Inl FetchError)\<rparr>"

definition outage_world :: world where
  "outage_world =
     \<lparr>lock_available = True, cfg = configured, calendar = event_source outage, sheet = []\<rparr>"


section \<open>Properties of the availability matcher\<close>

lemma count_conflicts_skip:
  assumes "getTaipeiDateString (getStartTime ev) = Inr d" "d \<noteq> q"
  shows "count_conflicts ss se q (es1 @ ev # es2) acc = count_conflicts ss se q (es1 @ es2) acc"
  using assms
  by (induction es1 arbitrary: acc) (auto split: sum.splits)

lemma count_conflicts_invalid:
  "\<exists>e \<in> set es. getStartTime e = None \<Longrightarrow> count_conflicts ss se q es acc = Inl RangeError"
  by (induction es arbitrary: acc)
     (auto simp: getTaipeiDateString_def split: sum.splits option.splits)

text \<open>
  When every event has a valid start, the loop counts exactly the events of the query date
  that satisfy the half-open overlap test against the window it was given.
\<close>

lemma count_conflicts_filter:
  "\<forall>e \<in> set es. getStartTime e \<noteq> None \<Longrightarrow>
   count_conflicts ss se q es acc =
     Inr (fst acc + length (filter (\<lambda>e. getTaipeiDateString (getStartTime e) = Inr q
                                        \<and> js_lt ss (getEndTime e) \<and> js_gt se (getStartTime e)) es),
          snd acc @ filter (\<lambda>e. getTaipeiDateString (getStartTime e) = Inr q
                                 \<and> js_lt ss (getEndTime e) \<and> js_gt se (getStartTime e)) es)"
  by (induction es arbitrary: acc)
     (auto simp: getTaipeiDateString_def split: sum.splits option.splits)

text \<open>
  The window of a slot whose end stays within the day (up to 22:59, and 23:00, whose end is
  written \<open>24:00\<close>) is \<open>[slotStart, slotStart + 1h)\<close>. For such a slot, and events with
  valid starts, the matcher counts exactly the events of the query date with
  \<open>slotStart < eventEnd\<close> and \<open>slotStart + 1h > eventStart\<close>, and reports the slot
  available exactly when there is none.
\<close>

lemma slot_window_within_day:
  assumes "date_fields_ok q" "hour \<le> 22 \<and> minute \<le> 59 \<or> hour = 23 \<and> minute = 0"
  shows "fst (slot_window q (hour, minute)) \<noteq> None
       \<and> snd (slot_window q (hour, minute))
           = map_option (\<lambda>s. s + int defaultDuration * MS_PER_HOUR) (fst (slot_window q (hour, minute)))"
  using assms
  by (auto simp: slot_window_def iso_taipei_def defaultDuration_def Let_def MS_PER_HOUR_def)

lemma matcher_overlap_rule:
  assumes "date_fields_ok q" "hour \<le> 22 \<and> minute \<le> 59 \<or> hour = 23 \<and> minute = 0"
    and "\<forall>e \<in> set es. getStartTime e \<noteq> None"
  shows "\<exists>s. fst (slot_window q (hour, minute)) = Some s
           \<and> conflictingEvents (checkSingleTimeSlotAvailability es (hour, minute) queryDate q)
               = filter (\<lambda>e. getTaipeiDateString (getStartTime e) = Inr q
                              \<and> js_lt (Some s) (getEndTime e)
                              \<and> js_gt (Some (s + int defaultDuration * MS_PER_HOUR)) (getStartTime e)) es
           \<and> conflictCount (checkSingleTimeSlotAvailability es (hour, minute) queryDate q)
               = int (length (conflictingEvents
                                (checkSingleTimeSlotAvailability es (hour, minute) queryDate q)))
           \<and> available (checkSingleTimeSlotAvailability es (hour, minute) queryDate q)
               = (conflictingEvents (checkSingleTimeSlotAvailability es (hour, minute) queryDate q) = [])"
proof -
  from slot_window_within_day [OF assms(1,2)]
  obtain s where s: "fst (slot_window q (hour, minute)) = Some s"
    and e: "snd (slot_window q (hour, minute)) = Some (s + int defaultDuration * MS_PER_HOUR)"
    by auto
  show ?thesis
    using count_conflicts_filter [OF assms(3), of "Some s" "Some (s + int defaultDuration * MS_PER_HOUR)" q "(0, [])"]
    by (simp add: checkSingleTimeSlotAvailability_def availability_of_def s e)
qed

text \<open>
  C1. The matcher is to count an event of the query date exactly when
  \<open>slotStart < eventEnd\<close> and \<open>slotStart + duration > eventStart\<close>. For the slot 23:30 on
  2025-07-15 the code builds the end of the window from the string
  \<open>2025-07-15T24:30:00+08:00\<close>, which is not a date, so the comparison \<open>slotEnd > eventStart\<close>
  is false for every event: the booking from 21:30 to 23:45 overlaps the hour from 23:30
  but is not counted, and the slot is reported available.
\<close>

theorem late_slot_overlap_missed:
  "slot_window (2025, 7, 15) (23, 30) = (Some 1752593400000, None)
   \<and> getStartTime late_booking = Some 1752586200000
   \<and> getEndTime late_booking = Some 1752594300000
   \<and> getTaipeiDateString (getStartTime late_booking) = Inr (2025, 7, 15)
   \<and> (1752593400000 :: int) < 1752594300000
   \<and> 1752593400000 + int defaultDuration * MS_PER_HOUR > 1752586200000
   \<and> checkSingleTimeSlotAvailability [late_booking] (23, 30) (iso_taipei (2025, 7, 15) 0 0 0) (2025, 7, 15)
       = \<lparr>available = True, conflictCount = 0, conflictingEvents = [], reason = Bookable\<rparr>"
  by code_simp

text \<open>
  C10. An event whose start falls on another Taipei date than the query date contributes
  nothing to the check of any slot: removing it from the event list leaves the result
  unchanged, in the single-day matcher and in the batch matcher alike.
\<close>

theorem other_day_event_ignored:
  assumes "getTaipeiDateString (getStartTime ev) = Inr d" and "d \<noteq> queryDateStr"
  shows "checkSingleTimeSlotAvailability (es1 @ ev # es2) timeSlot queryDate queryDateStr
           = checkSingleTimeSlotAvailability (es1 @ es2) timeSlot queryDate queryDateStr
       \<and> checkSingleTimeSlotAvailabilityFromEvents (es1 @ ev # es2) timeSlot queryDate queryDateStr
           = checkSingleTimeSlotAvailabilityFromEvents (es1 @ es2) timeSlot queryDate queryDateStr"
  unfolding checkSingleTimeSlotAvailability_def checkSingleTimeSlotAvailabilityFromEvents_def
  using count_conflicts_skip [OF assms] by simp

text \<open>
  The event from 23:00 on 2025-07-14 to 02:00 on 2025-07-15 overlaps the slot 00:30 of
  2025-07-15 in time, and that slot is still reported available.
\<close>

theorem other_day_event_ignored_witness:
  "getTaipeiDateString (getStartTime overnight_booking) = Inr (2025, 7, 14)
   \<and> js_lt (fst (slot_window (2025, 7, 15) (0, 30))) (getEndTime overnight_booking)
   \<and> js_gt (snd (slot_window (2025, 7, 15) (0, 30))) (getStartTime overnight_booking)
   \<and> checkSingleTimeSlotAvailability [overnight_booking] (0, 30) None (2025, 7, 15)
       = \<lparr>available = True, conflictCount = 0, conflictingEvents = [], reason = Bookable\<rparr>
   \<and> checkSingleTimeSlotAvailabilityFromEvents [overnight_booking] (0, 30) None (2025, 7, 15)
       = \<lparr>available = True, conflictCount = 0, conflictingEvents = [], reason = Bookable\<rparr>"
proof -
  have d: "getTaipeiDateString (getStartTime overnight_booking) = Inr (2025, 7, 14)"
    by code_simp
  have ne: "(2025, 7, 14) \<noteq> ((2025, 7, 15) :: ymd)"
    by simp
  have ov: "js_lt (fst (slot_window (2025, 7, 15) (0, 30))) (getEndTime overnight_booking)
     \<and> js_gt (snd (slot_window (2025, 7, 15) (0, 30))) (getStartTime overnight_booking)"
    by code_simp
  have e1: "checkSingleTimeSlotAvailability [] (0, 30) None (2025, 7, 15)
       = \<lparr>available = True, conflictCount = 0, conflictingEvents = [], reason = Bookable\<rparr>"
    by code_simp
  have e2: "checkSingleTimeSlotAvailabilityFromEvents [] (0, 30) None (2025, 7, 15)
       = \<lparr>available = True, conflictCount = 0, conflictingEvents = [], reason = Bookable\<rparr>"
    by code_simp
  from other_day_event_ignored [OF d ne, of "[]" "[]" "(0, 30)" None] d ov e1 e2
  show ?thesis by simp
qed

section \<open>Error paths of the availability check\<close>

lemma fail_all_lookup:
  "fail_all err ts m slot = (if slot \<in> set ts then Some (failed_record err) else m slot)"
  by (induction ts arbitrary: m) auto

lemma availability_of_Inl: "availability_of (Inl err) = failed_record err"
  by (simp add: availability_of_def failed_record_def)

lemma available_availability_of:
  "available (availability_of r) = (\<exists>cs. r = Inr (0, cs))"
  by (cases r) (auto simp: availability_of_def)

lemma verify_available_cases:
  assumes "v_available (fst (verifyBackendTimeSlotAvailability c getEvents dq tq))"
  shows "\<exists>d t cal es cs. dq = Some d \<and> tq = Some t \<and> calendarId c = Inr cal
          \<and> getEvents cal (fst (getOptimizedQueryRange d)) (snd (getOptimizedQueryRange d)) = Inr es
          \<and> count_conflicts (fst (slot_window d t)) (snd (slot_window d t)) d es (0, []) = Inr (0, cs)"
  using assms
  by (auto simp: verifyBackendTimeSlotAvailability_def defaultResponse_def
        checkTimeSlotsAvailability_def Let_def checkSingleTimeSlotAvailability_def
        available_availability_of failed_record_def
      split: option.splits sum.splits if_splits)

lemma verify_trace:
  "snd (verifyBackendTimeSlotAvailability c getEvents dq tq) =
     (case dq of None \<Rightarrow> [] | Some d \<Rightarrow>
      (case tq of None \<Rightarrow> [] | Some t \<Rightarrow>
       (case calendarId c of Inl e \<Rightarrow> []
        | Inr cal \<Rightarrow> if cal = PLACEHOLDER_CALENDAR_ID then []
                   else [GetEvents cal (fst (getOptimizedQueryRange d)) (snd (getOptimizedQueryRange d))])))"
  by (auto simp: verifyBackendTimeSlotAvailability_def checkTimeSlotsAvailability_def Let_def
      split: option.splits sum.splits)

lemma verify_no_append:
  "AppendRow r \<notin> set (snd (verifyBackendTimeSlotAvailability c getEvents dq tq))"
  by (simp add: verify_trace split: option.splits sum.splits)

lemma verify_status_fresh:
  assumes "calendarId c = Inr cal" "cal \<noteq> PLACEHOLDER_CALENDAR_ID"
    and "getEvents cal (fst (getOptimizedQueryRange d)) (snd (getOptimizedQueryRange d)) = Inr es"
  shows "fst (verifyBackendTimeSlotAvailability c getEvents (Some d) (Some t)) =
     \<lparr>v_available = available (checkSingleTimeSlotAvailability es t (iso_taipei d 0 0 0) d),
      v_errorCode = (if available (checkSingleTimeSlotAvailability es t (iso_taipei d 0 0 0) d)
                     then None else Some TIME_SLOT_CONFLICT),
      v_slotStatus = Some (checkSingleTimeSlotAvailability es t (iso_taipei d 0 0 0) d)\<rparr>"
  using assms
  by (simp add: verifyBackendTimeSlotAvailability_def checkTimeSlotsAvailability_def Let_def)

text \<open>
  What does fail closed: when the loop over the events raises, both matchers return the
  failure record, which has \<open>available = false\<close> and \<open>conflictCount = -1\<close>; and when the
  getter of the calendar id throws, the re-validation answers unavailable.
\<close>

lemma matcher_fail_closed:
  assumes "count_conflicts (fst (slot_window q slot)) (snd (slot_window q slot)) q events (0, []) = Inl err"
  shows "checkSingleTimeSlotAvailability events slot queryDate q = failed_record err"
    and "checkSingleTimeSlotAvailabilityFromEvents events slot queryDate q = failed_record err"
    and "available (failed_record err) = False" and "conflictCount (failed_record err) = - 1"
  using assms
  by (simp_all add: checkSingleTimeSlotAvailability_def
        checkSingleTimeSlotAvailabilityFromEvents_def availability_of_Inl failed_record_def)

lemma verify_unconfigured:
  "calendarId c = Inl err \<Longrightarrow>
   fst (verifyBackendTimeSlotAvailability c getEvents (Some q) (Some slot))
     = defaultResponse TIME_SLOT_CHECK_FAILED"
  by (simp add: verifyBackendTimeSlotAvailability_def)

text \<open>
  The event source of the repository never raises: whatever the platform does, the fetch
  returns a list, and \<open>checkTimeSlotsAvailability\<close> runs the matcher on it. When both
  services of the platform raise, that list is empty.
\<close>

lemma event_source_never_raises: "event_source p cal startTime endTime \<noteq> Inl err"
  by (simp add: event_source_def)

lemma checkTimeSlotsAvailability_event_source:
  "fst (checkTimeSlotsAvailability (event_source p) queryDate q slots cal)
     = check_all
         (AdvancedCalendarService_getEvents p cal (fst (getOptimizedQueryRange q))
            (snd (getOptimizedQueryRange q)))
         queryDate q slots Map.empty"
  by (simp add: checkTimeSlotsAvailability_def event_source_def Let_def)

lemma paginate_all_raise:
  "list_api pageToken = Inl err \<Longrightarrow>
   paginate list_api pageToken pageCount allEvents requested = (allEvents, requested @ [pageToken])"
  by (simp add: paginate.simps)

lemma getEvents_outage: "AdvancedCalendarService_getEvents outage cal startTime endTime = []"
  by (auto simp: AdvancedCalendarService_getEvents_def getEventsDirectly_def
        fallbackToCalendarApp_def outage_def executePaginatedQuery_def paginate_all_raise Let_def
      split: option.splits)

text \<open>
  C9. The availability check is to be fail-closed: no error path may report a slot
  available. When the fetch of the booking calendar fails, on the API and on the fallback,
  \<open>AdvancedCalendarService.getEvents\<close> swallows both failures and returns the empty list;
  the \<open>catch\<close> block of \<open>checkTimeSlotsAvailability\<close>, which would mark every slot
  unavailable with \<open>conflictCount = -1\<close>, is never entered. The matcher then finds no
  conflict: the slot 14:00 of 2025-07-15 is reported available with \<open>conflictCount = 0\<close>,
  the re-validation before the commit answers available, and the booking is appended, whatever
  the calendar that could not be read holds.
\<close>

theorem failed_fetch_reported_available:
  "AdvancedCalendarService_getEvents outage (ascii ''bookings'')
       (iso_taipei (2025, 7, 15) 8 0 0) (iso_taipei (2025, 7, 15) 22 0 59) = []
   \<and> fst (checkTimeSlotsAvailability (event_source outage) None (2025, 7, 15) [(14, 0)]
            (ascii ''bookings'')) (14, 0)
       = Some \<lparr>available = True, conflictCount = 0, conflictingEvents = [], reason = Bookable\<rparr>
   \<and> fst (verifyBackendTimeSlotAvailability configured (event_source outage)
            (Some (2025, 7, 15)) (Some (14, 0)))
       = \<lparr>v_available = True, v_errorCode = None,
          v_slotStatus = Some \<lparr>available = True, conflictCount = 0, conflictingEvents = [],
                                reason = Bookable\<rparr>\<rparr>
   \<and> handleSaveBooking outage_world sample_booking
       = (Saved (ascii ''Lin'', ascii ''0912345678'', ascii ''2025-07-15'', ascii ''14:00''),
          [WaitLock,
           GetEvents (ascii ''bookings'') (iso_taipei (2025, 7, 15) 8 0 0) (iso_taipei (2025, 7, 15) 22 0 59),
           AppendRow (ascii ''Lin'', 39 # ascii ''0912345678'', formattedDate (ascii ''2025-07-15''),
                      ascii ''14:00''),
           ReleaseLock],
          [(ascii ''Lin'', ascii ''0912345678'', formattedDate (ascii ''2025-07-15''), ascii ''14:00'')])"
  by code_simp

section \<open>Properties of the booking commit\<close>

text \<open>
  C2. Once the lock is held and the submitted fields are valid, the handler calls the
  re-validation between \<open>waitLock\<close> and \<open>releaseLock\<close>. With a configured calendar the
  re-validation fetches the booking calendar's events for the day at that moment and answers
  from the matcher's result on them. When it answers unavailable, the handler returns the
  failure with the slot status as conflict details, appends no row and leaves the sheet as
  it was.
\<close>

theorem commit_revalidates_under_lock:
  assumes "lock_available w" and "validate_booking b = None"
  defines "d \<equiv> date_fields (the (date b))" and "t \<equiv> time_fields (the (time b))"
  defines "v \<equiv> verifyBackendTimeSlotAvailability (cfg w) (calendar w) (Some d) (Some t)"
  shows "(\<exists>rest. fst (snd (handleSaveBooking w b)) = [WaitLock] @ snd v @ rest @ [ReleaseLock])
       \<and> (\<forall>cal es. calendarId (cfg w) = Inr cal \<and> cal \<noteq> PLACEHOLDER_CALENDAR_ID
             \<and> calendar w cal (fst (getOptimizedQueryRange d)) (snd (getOptimizedQueryRange d)) = Inr es
           \<longrightarrow> snd v = [GetEvents cal (fst (getOptimizedQueryRange d)) (snd (getOptimizedQueryRange d))]
             \<and> v_slotStatus (fst v) = Some (checkSingleTimeSlotAvailability es t (iso_taipei d 0 0 0) d)
             \<and> v_available (fst v) = available (checkSingleTimeSlotAvailability es t (iso_taipei d 0 0 0) d))
       \<and> (\<not> v_available (fst v) \<longrightarrow>
             (\<exists>code. fst (handleSaveBooking w b) = SlotUnavailable code (v_slotStatus (fst v)))
             \<and> snd (snd (handleSaveBooking w b)) = sheet w
             \<and> (\<forall>r. AppendRow r \<notin> set (fst (snd (handleSaveBooking w b)))))"
proof (intro conjI allI impI)
  show "\<exists>rest. fst (snd (handleSaveBooking w b)) = [WaitLock] @ snd v @ rest @ [ReleaseLock]"
    using assms(1,2) by (auto simp: handleSaveBooking_def Let_def v_def d_def t_def)
next
  fix cal es
  assume a: "calendarId (cfg w) = Inr cal \<and> cal \<noteq> PLACEHOLDER_CALENDAR_ID
             \<and> calendar w cal (fst (getOptimizedQueryRange d)) (snd (getOptimizedQueryRange d)) = Inr es"
  then show "snd v = [GetEvents cal (fst (getOptimizedQueryRange d)) (snd (getOptimizedQueryRange d))]"
    by (simp add: v_def verify_trace)
  from a have "fst v = \<lparr>v_available = available (checkSingleTimeSlotAvailability es t (iso_taipei d 0 0 0) d),
      v_errorCode = (if available (checkSingleTimeSlotAvailability es t (iso_taipei d 0 0 0) d)
                     then None else Some TIME_SLOT_CONFLICT),
      v_slotStatus = Some (checkSingleTimeSlotAvailability es t (iso_taipei d 0 0 0) d)\<rparr>"
    unfolding v_def by (intro verify_status_fresh) auto
  then show "v_slotStatus (fst v) = Some (checkSingleTimeSlotAvailability es t (iso_taipei d 0 0 0) d)"
    and "v_available (fst v) = available (checkSingleTimeSlotAvailability es t (iso_taipei d 0 0 0) d)"
    by simp_all
next
  assume na: "\<not> v_available (fst v)"
  then show "\<exists>code. fst (handleSaveBooking w b) = SlotUnavailable code (v_slotStatus (fst v))"
    using assms(1,2) by (auto simp: handleSaveBooking_def Let_def v_def d_def t_def)
  from na show "snd (snd (handleSaveBooking w b)) = sheet w"
    using assms(1,2) by (auto simp: handleSaveBooking_def Let_def v_def d_def t_def)
  fix r
  from na show "AppendRow r \<notin> set (fst (snd (handleSaveBooking w b)))"
    using assms(1,2) verify_no_append[of r "cfg w" "calendar w" "Some d" "Some t"]
    by (auto simp: handleSaveBooking_def Let_def v_def d_def t_def)
qed

text \<open>
  A submission for 14:00 on 2025-07-15 against a calendar holding a booking from 14:00 to
  15:00 is refused with the conflict, and the sheet is unchanged; against the empty calendar
  the same submission is appended.
\<close>

theorem commit_revalidates_under_lock_witness:
  "lock_available busy_world \<and> validate_booking sample_booking = None
   \<and> fst (handleSaveBooking busy_world sample_booking)
       = SlotUnavailable TIME_SLOT_CONFLICT
           (Some \<lparr>available = False, conflictCount = 1, conflictingEvents = [afternoon_booking],
                   reason = ConflictsWith 1\<rparr>)
   \<and> fst (snd (handleSaveBooking busy_world sample_booking))
       = [WaitLock,
          GetEvents (ascii ''bookings'') (iso_taipei (2025, 7, 15) 8 0 0) (iso_taipei (2025, 7, 15) 22 0 59),
          ReleaseLock]
   \<and> snd (snd (handleSaveBooking busy_world sample_booking)) = sheet busy_world
   \<and> handleSaveBooking free_world sample_booking
       = (Saved (ascii ''Lin'', ascii ''0912345678'', ascii ''2025-07-15'', ascii ''14:00''),
          [WaitLock,
           GetEvents (ascii ''bookings'') (iso_taipei (2025, 7, 15) 8 0 0) (iso_taipei (2025, 7, 15) 22 0 59),
           AppendRow (ascii ''Lin'', 39 # ascii ''0912345678'', formattedDate (ascii ''2025-07-15''),
                      ascii ''14:00''),
           ReleaseLock],
          [(ascii ''Lin'', ascii ''0912345678'', formattedDate (ascii ''2025-07-15''), ascii ''14:00'')])"
proof -
  have l: "lock_available busy_world"
    by (simp add: busy_world_def)
  have v: "validate_booking sample_booking = None"
    by code_simp
  have na: "\<not> v_available (fst (verifyBackendTimeSlotAvailability (cfg busy_world) (calendar busy_world)
              (Some (date_fields (the (date sample_booking))))
              (Some (time_fields (the (time sample_booking))))))"
    by code_simp
  have r: "fst (handleSaveBooking busy_world sample_booking)
       = SlotUnavailable TIME_SLOT_CONFLICT
           (Some \<lparr>available = False, conflictCount = 1, conflictingEvents = [afternoon_booking],
                   reason = ConflictsWith 1\<rparr>)"
    by code_simp
  have tr: "fst (snd (handleSaveBooking busy_world sample_booking))
       = [WaitLock,
          GetEvents (ascii ''bookings'') (iso_taipei (2025, 7, 15) 8 0 0) (iso_taipei (2025, 7, 15) 22 0 59),
          ReleaseLock]"
    by code_simp
  have ok: "handleSaveBooking free_world sample_booking
       = (Saved (ascii ''Lin'', ascii ''0912345678'', ascii ''2025-07-15'', ascii ''14:00''),
          [WaitLock,
           GetEvents (ascii ''bookings'') (iso_taipei (2025, 7, 15) 8 0 0) (iso_taipei (2025, 7, 15) 22 0 59),
           AppendRow (ascii ''Lin'', 39 # ascii ''0912345678'', formattedDate (ascii ''2025-07-15''),
                      ascii ''14:00''),
           ReleaseLock],
          [(ascii ''Lin'', ascii ''0912345678'', formattedDate (ascii ''2025-07-15''), ascii ''14:00'')])"
    by code_simp
  from commit_revalidates_under_lock [OF l v] na
  have "snd (snd (handleSaveBooking busy_world sample_booking)) = sheet busy_world"
    by blast
  with l v r tr ok show ?thesis by simp
qed

text \<open>
  C6, as the code has it. The handler waits for the lock first and validates afterwards: a
  submission with a missing required field or a malformed date or time is rejected with a
  validation error once the lock is held, before the availability check and before any
  write, and the lock is released; when the lock cannot be obtained the answer is
  \<open>LOCK_TIMEOUT\<close> and the fields are never looked at.
\<close>

theorem invalid_booking_rejected_after_lock:
  assumes "falsy (customerName b) \<or> falsy (phone b) \<or> falsy (date b) \<or> falsy (time b)
           \<or> \<not> DATE_REGEX_test (the (date b)) \<or> \<not> TIME_FORMAT_REGEX_test (the (time b))"
  shows "\<exists>err. validate_booking b = Some err
           \<and> handleSaveBooking w b =
               (if lock_available w then (Thrown err, [WaitLock, ReleaseLock], sheet w)
                else (LOCK_TIMEOUT, [WaitLock], sheet w))"
  using assms
  by (auto simp: validate_booking_def handleSaveBooking_def)

text \<open>
  C6 as stated fails: for the submission without a customer name the lock is requested
  before the validation error is raised, and under contention the answer is the lock
  timeout, not a validation error.
\<close>

theorem validation_follows_lock_attempt:
  "validate_booking nameless_booking = Some (MissingField F_customerName)
   \<and> handleSaveBooking free_world nameless_booking
       = (Thrown (MissingField F_customerName), [WaitLock, ReleaseLock], [])
   \<and> handleSaveBooking contended_world nameless_booking = (LOCK_TIMEOUT, [WaitLock], [])"
  by code_simp

text \<open>The hypothesis holds for the submission without a customer name.\<close>

theorem invalid_booking_rejected_after_lock_witness:
  "falsy (customerName nameless_booking)
   \<and> (\<exists>err. validate_booking nameless_booking = Some err
         \<and> handleSaveBooking free_world nameless_booking = (Thrown err, [WaitLock, ReleaseLock], []))"
proof -
  have f: "falsy (customerName nameless_booking)"
    by (simp add: falsy_def nameless_booking_def)
  have l: "lock_available free_world" "sheet free_world = []"
    by (simp_all add: free_world_def)
  from invalid_booking_rejected_after_lock [of nameless_booking free_world] f l
  show ?thesis by simp
qed

section \<open>Properties of the time-slot extractor\<close>

text \<open>
  The correction of a parsed hour: twelve is added below 12 when the title contains the
  afternoon marker, 12 becomes 0 when it contains the morning marker, and without the
  afternoon marker every hour other than 12 is kept as parsed, whatever else the title holds.
  The times found in a title are the corrected times of the matches of the six patterns.
\<close>

lemma corrected_hour_afternoon:
  "includes_str title marker_afternoon \<Longrightarrow> hour < 12 \<Longrightarrow> corrected_hour title hour = hour + 12"
  by (simp add: corrected_hour_def)

lemma corrected_hour_morning:
  "includes_str title marker_morning \<Longrightarrow> corrected_hour title 12 = 0"
  by (simp add: corrected_hour_def)

lemma corrected_hour_without_afternoon:
  "\<not> includes_str title marker_afternoon \<Longrightarrow> hour \<noteq> 12 \<Longrightarrow> corrected_hour title hour = hour"
  by (simp add: corrected_hour_def)

lemma set_add_set: "set (set_add x xs) = insert x (set xs)"
  by (auto simp: set_add_def)

lemma foldl_set_add:
  "set (foldl (\<lambda>found m. set_add (f m) found) acc ms) = set acc \<union> f ` set ms"
  by (induction ms arbitrary: acc) (auto simp: set_add_set)

lemma foldl_patterns:
  "set (foldl (\<lambda>found p. foldl (\<lambda>found m. set_add (f m) found) found (g p)) acc ps)
     = set acc \<union> f ` (\<Union>p \<in> set ps. set (g p))"
  by (induction ps arbitrary: acc) (auto simp: foldl_set_add)

lemma set_title_times:
  "set (title_times title) = time_of_match title ` (\<Union>p \<in> set timePatterns. set (all_matches p title))"
  unfolding title_times_def by (simp add: foldl_patterns)

lemma title_times_empty_iff:
  "title_times title = [] \<longleftrightarrow> (\<forall>p \<in> set timePatterns. all_matches p title = [])"
proof -
  have "title_times title = [] \<longleftrightarrow> set (title_times title) = {}" by simp
  also have "\<dots> \<longleftrightarrow> (\<forall>p \<in> set timePatterns. all_matches p title = [])"
    unfolding set_title_times by auto
  finally show ?thesis .
qed

text \<open>
  C8. The extractor returns a list for every title and start time. When no pattern matches
  the title it returns no slot if no start time is given, and otherwise exactly one slot,
  whose time is the hour and minute of the event's start and whose period is derived from
  that hour.
\<close>

theorem extractor_fallback:
  assumes "\<forall>p \<in> set timePatterns. all_matches p title = []"
  shows "extractTimeSlotsFromTitle tz title None = []
       \<and> extractTimeSlotsFromTitle tz title (Some t)
           = [\<lparr>slot_time = (getHours tz t, getMinutes tz t),
               slot_period = period_of (getHours tz t), slot_available = True,
               originalTitle = title\<rparr>]"
  using assms title_times_empty_iff [of title]
  by (simp add: extractTimeSlotsFromTitle_def make_slot_def)

text \<open>
  A title without a time and an event starting at 09:15 Taipei time, read in a script whose
  time zone is Taipei: the single slot 09:15, in the morning.
\<close>

theorem extractor_fallback_witness:
  "map (\<lambda>p. all_matches p title_plain) timePatterns = [[], [], [], [], [], []]
   \<and> iso_taipei (2025, 7, 15) 9 15 0 = Some 1752542100000
   \<and> extractTimeSlotsFromTitle UTC_OFFSET_MS title_plain None = []
   \<and> extractTimeSlotsFromTitle UTC_OFFSET_MS title_plain (Some 1752542100000)
       = [\<lparr>slot_time = (9, 15), slot_period = Morning, slot_available = True,
           originalTitle = title_plain\<rparr>]
   \<and> timeStr (9, 15) = ''09:15''"
proof -
  have h: "\<forall>p \<in> set timePatterns. all_matches p title_plain = []"
    by code_simp
  have t: "iso_taipei (2025, 7, 15) 9 15 0 = Some 1752542100000"
    by code_simp
  have g: "getHours UTC_OFFSET_MS 1752542100000 = 9" "getMinutes UTC_OFFSET_MS 1752542100000 = 15"
    "period_of 9 = Morning" "timeStr (9, 15) = ''09:15''"
    by code_simp+
  have m: "map (\<lambda>p. all_matches p title_plain) timePatterns = [[], [], [], [], [], []]"
    by code_simp
  from extractor_fallback [OF h, of UTC_OFFSET_MS 1752542100000] m t g
  show ?thesis by simp
qed

text \<open>
  C4. The correction is to add 12 to an hour below 12 when the title carries the afternoon
  or the evening marker. The code tests the afternoon marker only: the titles
  \<open>evening 6 o'clock\<close> (the example of the README) and \<open>evening 8:00\<close> yield the slots
  06:00 and 08:00, both classified as morning, where the claim gives 18:00 and 20:00. The
  title \<open>afternoon 2:00\<close> yields 14:00 in the afternoon, as the claim says.
\<close>

theorem evening_marker_not_corrected:
  "includes_str title_evening_6 marker_evening
   \<and> extractTimeSlotsFromTitle UTC_OFFSET_MS title_evening_6 None
       = [\<lparr>slot_time = (6, 0), slot_period = Morning, slot_available = True,
           originalTitle = title_evening_6\<rparr>]
   \<and> timeStr (6, 0) = ''06:00''
   \<and> includes_str title_evening_8 marker_evening
   \<and> extractTimeSlotsFromTitle UTC_OFFSET_MS title_evening_8 None
       = [\<lparr>slot_time = (8, 0), slot_period = Morning, slot_available = True,
           originalTitle = title_evening_8\<rparr>]
   \<and> extractTimeSlotsFromTitle UTC_OFFSET_MS title_afternoon_2 None
       = [\<lparr>slot_time = (14, 0), slot_period = Afternoon, slot_available = True,
           originalTitle = title_afternoon_2\<rparr>]
   \<and> timeStr (14, 0) = ''14:00''"
  by code_simp

section \<open>Properties of the paginated query\<close>

text \<open>
  The loop always ends: whatever the API answers, it is called at most 21 times.
\<close>

lemma paginate_requests_bound:
  "pageCount \<le> 20 \<Longrightarrow>
   length (snd (paginate list_api pageToken pageCount allEvents requested))
     \<le> length requested + (21 - pageCount)"
proof (induction list_api pageToken pageCount allEvents requested rule: paginate.induct)
  case (1 list_api pageToken pageCount allEvents requested)
  show ?case
  proof (cases "list_api pageToken")
    case (Inl err)
    with "1.prems" show ?thesis by (simp add: paginate.simps)
  next
    case (Inr response)
    show ?thesis
    proof (cases "Suc pageCount > 20 \<or> falsy (nextPageToken response)")
      case True
      with Inr "1.prems" show ?thesis by (auto simp: paginate.simps)
    next
      case False
      then have le: "Suc pageCount \<le> 20" and more: "\<not> falsy (nextPageToken response)" by auto
      from "1.IH" [OF Inr _ more le] le
      have "length (snd (paginate list_api (nextPageToken response) (Suc pageCount)
                     (allEvents @ items response) (requested @ [pageToken])))
              \<le> length (requested @ [pageToken]) + (21 - Suc pageCount)"
        by simp
      with Inr False le show ?thesis
        by (simp add: paginate.simps [of list_api pageToken pageCount])
    qed
  qed
qed

lemma executePaginatedQuery_requests_bound:
  "length (snd (executePaginatedQuery list_api)) \<le> 21"
  using paginate_requests_bound [of 0 list_api None "[]" "[]"]
  by (simp add: executePaginatedQuery_def)

text \<open>
  C5. The loop is to stop within 20 page fetches. The guard \<open>pageCount > 20\<close> is tested
  after the page has been fetched, so it lets the 21st request through: against a calendar
  that always returns a further page token the API is called 21 times, and the events of 21
  pages are returned.
\<close>

theorem endless_pages_fetched_21_times:
  "length (snd (executePaginatedQuery endless_pages)) = 21
   \<and> length (fst (executePaginatedQuery endless_pages)) = 21"
  by code_simp

section \<open>Properties of the batch availability query\<close>

text \<open>
  Both ends of the range are midnights UTC, so the rounded-up quotient \<open>daysDiff\<close> is the
  number of days from the start date to the end date. The calendar ids the getters return
  are never empty. For well-formed dates the guard of the handler answers \<open>RangeTooLarge\<close>
  exactly when the end date lies more than 62 days after the start date.
\<close>

lemma ceil_div_mult: "0 < b \<Longrightarrow> ceil_div (k * b) b = k"
proof -
  assume b: "0 < b"
  have "(- (k * b)) div b = ((- k) * b) div b" by (simp only: mult_minus_left)
  also from b have "\<dots> = - k" by (intro nonzero_mult_div_cancel_right) simp
  finally show ?thesis by (simp add: ceil_div_def)
qed

lemma daysDiff_whole_days:
  "ceil_div (e * MS_PER_DAY - s * MS_PER_DAY) MS_PER_DAY = e - s"
proof -
  have a: "ceil_div ((e - s) * MS_PER_DAY) MS_PER_DAY = e - s"
    by (rule ceil_div_mult) (simp add: MS_PER_DAY_def)
  have b: "(e - s) * MS_PER_DAY = e * MS_PER_DAY - s * MS_PER_DAY"
    by (simp add: algebra_simps)
  from a show ?thesis unfolding b .
qed

lemma calendarId_nonempty: "calendarId c = Inr cal \<Longrightarrow> cal \<noteq> []"
  by (auto simp: calendarId_def split: option.splits if_splits)

lemma timeSlotsCalendarId_nonempty: "timeSlotsCalendarId c = Inr cal \<Longrightarrow> cal \<noteq> []"
  by (auto simp: timeSlotsCalendarId_def calendarId_def split: option.splits if_splits)

lemma batch_range_too_large_iff:
  assumes "DATE_REGEX_test startDate" "DATE_REGEX_test endDate"
    and "date_fields_ok (date_fields startDate)" "date_fields_ok (date_fields endDate)"
  shows "fst (handleBatchCheckTimeSlotAvailability tz c getEvents startDate endDate)
           = BatchFailure (RangeTooLarge 62)
         \<longleftrightarrow> days_from_civil (date_fields endDate) - days_from_civil (date_fields startDate) > 62"
proof -
  let ?s = "days_from_civil (date_fields startDate)" and ?e = "days_from_civil (date_fields endDate)"
  have pos: "?e - ?s > 62 \<Longrightarrow> \<not> ?s * MS_PER_DAY > ?e * MS_PER_DAY"
    by (simp add: MS_PER_DAY_def)
  show ?thesis
    using assms pos
    by (auto simp: handleBatchCheckTimeSlotAvailability_def date_only_utc_def daysDiff_whole_days
          maxDays_def Let_def
        split: sum.splits)
qed

text \<open>
  C3. A range of more than 62 days is to be rejected, and so the request for 2025-07-01 to
  2025-09-01, which covers 63 days. The handler compares the difference of the two dates
  with the limit, \<open>daysDiff > 62\<close>, and that difference is 62: the request is accepted,
  both calendars are fetched, and the loop over the dates, which includes both ends, runs
  from 2025-07-01, the first date, to 2025-09-01, the 63rd: the result has an entry for
  either. The error
  message of the guard promises at most 62 days, and \<open>getOptimizedQueryRangeBatch\<close> counts
  63 days for the same request. One day more, to 2025-09-02, is rejected.
\<close>

theorem two_month_range_accepted:
  "fst two_month_request \<noteq> BatchFailure (RangeTooLarge 62)
   \<and> batch_has_date (fst two_month_request) (2025, 7, 1)
   \<and> batch_has_date (fst two_month_request) (2025, 9, 1)
   \<and> days_from_civil (2025, 9, 1) - days_from_civil (2025, 7, 1) + 1 = 63
   \<and> batch_totalDays (2025, 7, 1) (2025, 9, 1) = Some 63
   \<and> maxDays = 62
   \<and> snd two_month_request
       = [GetEvents (ascii ''slots'') (iso_taipei (2025, 7, 1) 8 0 0) (iso_taipei (2025, 9, 1) 22 0 0),
          GetEvents (ascii ''bookings'') (iso_taipei (2025, 7, 1) 8 0 0) (iso_taipei (2025, 9, 1) 22 0 0)]
   \<and> fst longer_request = BatchFailure (RangeTooLarge 62)"
proof -
  have first: "batch_has_date (fst two_month_request) (2025, 7, 1)"
    by code_simp
  have last: "batch_has_date (fst two_month_request) (2025, 9, 1)"
    by code_simp
  from first have ne: "fst two_month_request \<noteq> BatchFailure (RangeTooLarge 62)"
    by (auto simp: batch_has_date_def)
  have count: "days_from_civil (2025, 9, 1) - days_from_civil (2025, 7, 1) + 1 = 63"
    "batch_totalDays (2025, 7, 1) (2025, 9, 1) = Some 63" "maxDays = 62"
    by code_simp+
  have tr: "snd two_month_request
       = [GetEvents (ascii ''slots'') (iso_taipei (2025, 7, 1) 8 0 0) (iso_taipei (2025, 9, 1) 22 0 0),
          GetEvents (ascii ''bookings'') (iso_taipei (2025, 7, 1) 8 0 0) (iso_taipei (2025, 9, 1) 22 0 0)]"
    by code_simp
  have r: "DATE_REGEX_test (ascii ''2025-07-01'')" "DATE_REGEX_test (ascii ''2025-09-02'')"
    by code_simp+
  have ok: "date_fields_ok (date_fields (ascii ''2025-07-01''))"
    "date_fields_ok (date_fields (ascii ''2025-09-02''))"
    by code_simp+
  have d: "days_from_civil (date_fields (ascii ''2025-09-02''))
         - days_from_civil (date_fields (ascii ''2025-07-01'')) = 63"
    by code_simp
  from batch_range_too_large_iff [OF r ok, of UTC_OFFSET_MS configured empty_calendar] d
  have longer: "fst longer_request = BatchFailure (RangeTooLarge 62)"
    by (simp add: longer_request_def)
  from ne first last count tr longer show ?thesis by (intro conjI)
qed

text \<open>
  When every fetched event has a valid start, grouping succeeds and the bucket of a date
  holds the events of that date within the range, in the order they were fetched.
\<close>

lemma group_by_date_bucket:
  "\<forall>ev \<in> set evs. getStartTime ev \<noteq> None \<Longrightarrow>
   \<exists>byDate'. group_by_date s e evs byDate = Inr byDate'
     \<and> (\<forall>d. bucket byDate' d
             = bucket byDate d
               @ filter (\<lambda>ev. getTaipeiDateString (getStartTime ev) = Inr d \<and> s \<le> d \<and> d \<le> e) evs)"
proof (induction evs arbitrary: byDate)
  case Nil
  then show ?case by simp
next
  case (Cons ev evs)
  then obtain t where t: "getStartTime ev = Some t" by auto
  let ?d = "civil_from_days ((t + UTC_OFFSET_MS) div MS_PER_DAY)"
  have gd: "getTaipeiDateString (getStartTime ev) = Inr ?d"
    by (simp add: t getTaipeiDateString_def)
  from Cons.prems have rest: "\<forall>ev \<in> set evs. getStartTime ev \<noteq> None" by simp
  show ?case
  proof (cases "s \<le> ?d \<and> ?d \<le> e")
    case True
    from Cons.IH [OF rest, of "byDate(?d \<mapsto> bucket byDate ?d @ [ev])"]
    obtain byDate' where
      g: "group_by_date s e evs (byDate(?d \<mapsto> bucket byDate ?d @ [ev])) = Inr byDate'"
      and b: "\<forall>d. bucket byDate' d
             = bucket (byDate(?d \<mapsto> bucket byDate ?d @ [ev])) d
               @ filter (\<lambda>ev. getTaipeiDateString (getStartTime ev) = Inr d \<and> s \<le> d \<and> d \<le> e) evs"
      by blast
    from g gd True have "group_by_date s e (ev # evs) byDate = Inr byDate'" by simp
    moreover from b gd True
    have "\<forall>d. bucket byDate' d
             = bucket byDate d
               @ filter (\<lambda>ev. getTaipeiDateString (getStartTime ev) = Inr d \<and> s \<le> d \<and> d \<le> e) (ev # evs)"
      by (auto simp: bucket_def)
    ultimately show ?thesis by blast
  next
    case False
    from Cons.IH [OF rest, of byDate]
    obtain byDate' where
      g: "group_by_date s e evs byDate = Inr byDate'"
      and b: "\<forall>d. bucket byDate' d
             = bucket byDate d
               @ filter (\<lambda>ev. getTaipeiDateString (getStartTime ev) = Inr d \<and> s \<le> d \<and> d \<le> e) evs"
      by blast
    from g gd False have "group_by_date s e (ev # evs) byDate = Inr byDate'" by auto
    moreover from b gd False
    have "\<forall>d. bucket byDate' d
             = bucket byDate d
               @ filter (\<lambda>ev. getTaipeiDateString (getStartTime ev) = Inr d \<and> s \<le> d \<and> d \<le> e) (ev # evs)"
      by auto
    ultimately show ?thesis by blast
  qed
qed

text \<open>
  C7. For a valid range, with both calendars configured and both fetches returning, the
  handler calls the event source exactly twice, first for the time-slot calendar and then
  for the booking calendar, both times with the one window that runs from the business
  opening on the first date to the business closing on the last date. When the events have
  valid starts, the result is the loop over the dates run on the two groupings by Taipei
  date of those two event lists.
\<close>

theorem batch_two_fetches:
  fixes tz c getEvents startDate endDate
  defines "R \<equiv> getOptimizedQueryRangeBatch tz (date_fields startDate) (date_fields endDate)"
  assumes regex: "DATE_REGEX_test startDate" "DATE_REGEX_test endDate"
    and ok: "date_fields_ok (date_fields startDate)" "date_fields_ok (date_fields endDate)"
    and order: "days_from_civil (date_fields startDate) \<le> days_from_civil (date_fields endDate)"
    and span: "days_from_civil (date_fields endDate) - days_from_civil (date_fields startDate) \<le> 62"
    and cals: "timeSlotsCalendarId c = Inr timeSlotsCal" "calendarId c = Inr bookingCal"
    and f1: "getEvents timeSlotsCal (fst R) (snd R) = Inr timeSlotsEvents"
    and f2: "getEvents bookingCal (fst R) (snd R) = Inr bookingEvents"
  shows "snd (handleBatchCheckTimeSlotAvailability tz c getEvents startDate endDate)
           = [GetEvents timeSlotsCal (fst R) (snd R), GetEvents bookingCal (fst R) (snd R)]
       \<and> ((\<forall>ev \<in> set (timeSlotsEvents @ bookingEvents). getStartTime ev \<noteq> None) \<longrightarrow>
            (\<exists>timeSlotsByDate bookingsByDate.
               fst (handleBatchCheckTimeSlotAvailability tz c getEvents startDate endDate)
                 = BatchSuccess
                     (day_loop tz timeSlotsByDate bookingsByDate
                        (days_from_civil (date_fields startDate) * MS_PER_DAY)
                        (days_from_civil (date_fields endDate) * MS_PER_DAY) Map.empty)
               \<and> (\<forall>d. bucket timeSlotsByDate d
                         = filter (\<lambda>ev. getTaipeiDateString (getStartTime ev) = Inr d
                                        \<and> date_fields startDate \<le> d \<and> d \<le> date_fields endDate)
                             timeSlotsEvents)
               \<and> (\<forall>d. bucket bookingsByDate d
                         = filter (\<lambda>ev. getTaipeiDateString (getStartTime ev) = Inr d
                                        \<and> date_fields startDate \<le> d \<and> d \<le> date_fields endDate)
                             bookingEvents)))"
proof -
  let ?s = "days_from_civil (date_fields startDate)" and ?e = "days_from_civil (date_fields endDate)"
  have ne: "timeSlotsCal \<noteq> []" "bookingCal \<noteq> []"
    using cals by (auto dest: timeSlotsCalendarId_nonempty calendarId_nonempty)
  have le: "\<not> ?s * MS_PER_DAY > ?e * MS_PER_DAY"
    using order by (simp add: MS_PER_DAY_def)
  have dd: "\<not> ceil_div (?e * MS_PER_DAY - ?s * MS_PER_DAY) MS_PER_DAY > maxDays"
    using span by (simp add: daysDiff_whole_days maxDays_def)
  have unfold: "handleBatchCheckTimeSlotAvailability tz c getEvents startDate endDate =
     (case group_by_date (date_fields startDate) (date_fields endDate) timeSlotsEvents Map.empty of
        Inl err \<Rightarrow> (BatchFailure (Raised err),
                     [GetEvents timeSlotsCal (fst R) (snd R), GetEvents bookingCal (fst R) (snd R)])
      | Inr timeSlotsByDate \<Rightarrow>
     (case group_by_date (date_fields startDate) (date_fields endDate) bookingEvents Map.empty of
        Inl err \<Rightarrow> (BatchFailure (Raised err),
                     [GetEvents timeSlotsCal (fst R) (snd R), GetEvents bookingCal (fst R) (snd R)])
      | Inr bookingsByDate \<Rightarrow>
          (BatchSuccess (day_loop tz timeSlotsByDate bookingsByDate (?s * MS_PER_DAY) (?e * MS_PER_DAY) Map.empty),
           [GetEvents timeSlotsCal (fst R) (snd R), GetEvents bookingCal (fst R) (snd R)])))"
    using regex ok cals ne le dd f1 f2
    unfolding handleBatchCheckTimeSlotAvailability_def R_def
    by (simp add: date_only_utc_def Let_def)
  have trace: "snd (handleBatchCheckTimeSlotAvailability tz c getEvents startDate endDate)
           = [GetEvents timeSlotsCal (fst R) (snd R), GetEvents bookingCal (fst R) (snd R)]"
    unfolding unfold by (simp split: sum.splits)
  have buckets: "\<exists>timeSlotsByDate bookingsByDate.
               fst (handleBatchCheckTimeSlotAvailability tz c getEvents startDate endDate)
                 = BatchSuccess
                     (day_loop tz timeSlotsByDate bookingsByDate (?s * MS_PER_DAY) (?e * MS_PER_DAY) Map.empty)
               \<and> (\<forall>d. bucket timeSlotsByDate d
                         = filter (\<lambda>ev. getTaipeiDateString (getStartTime ev) = Inr d
                                        \<and> date_fields startDate \<le> d \<and> d \<le> date_fields endDate)
                             timeSlotsEvents)
               \<and> (\<forall>d. bucket bookingsByDate d
                         = filter (\<lambda>ev. getTaipeiDateString (getStartTime ev) = Inr d
                                        \<and> date_fields startDate \<le> d \<and> d \<le> date_fields endDate)
                             bookingEvents)"
    if valid: "\<forall>ev \<in> set (timeSlotsEvents @ bookingEvents). getStartTime ev \<noteq> None"
  proof -
    from valid have v1: "\<forall>ev \<in> set timeSlotsEvents. getStartTime ev \<noteq> None"
      and v2: "\<forall>ev \<in> set bookingEvents. getStartTime ev \<noteq> None" by auto
    from group_by_date_bucket [OF v1, of "date_fields startDate" "date_fields endDate" Map.empty]
    obtain ts where ts: "group_by_date (date_fields startDate) (date_fields endDate) timeSlotsEvents Map.empty = Inr ts"
      and tsb: "\<forall>d. bucket ts d = filter (\<lambda>ev. getTaipeiDateString (getStartTime ev) = Inr d
                                        \<and> date_fields startDate \<le> d \<and> d \<le> date_fields endDate) timeSlotsEvents"
      by (auto simp: bucket_def)
    from group_by_date_bucket [OF v2, of "date_fields startDate" "date_fields endDate" Map.empty]
    obtain bk where bk: "group_by_date (date_fields startDate) (date_fields endDate) bookingEvents Map.empty = Inr bk"
      and bkb: "\<forall>d. bucket bk d = filter (\<lambda>ev. getTaipeiDateString (getStartTime ev) = Inr d
                                        \<and> date_fields startDate \<le> d \<and> d \<le> date_fields endDate) bookingEvents"
      by (auto simp: bucket_def)
    have "fst (handleBatchCheckTimeSlotAvailability tz c getEvents startDate endDate)
            = BatchSuccess (day_loop tz ts bk (?s * MS_PER_DAY) (?e * MS_PER_DAY) Map.empty)"
      unfolding unfold by (simp add: ts bk)
    with tsb bkb show ?thesis by blast
  qed
  from trace buckets show ?thesis by blast
qed

text \<open>
  Three days and sixty-three days give the same two fetches; on 2025-07-15 the slot 14:00
  offered by the slot calendar is matched against the booking of that day.
\<close>

theorem batch_two_fetches_witness:
  "snd (handleBatchCheckTimeSlotAvailability UTC_OFFSET_MS configured two_calendars
          (ascii ''2025-07-14'') (ascii ''2025-07-16''))
     = [GetEvents (ascii ''slots'') (iso_taipei (2025, 7, 14) 8 0 0) (iso_taipei (2025, 7, 16) 22 0 0),
        GetEvents (ascii ''bookings'') (iso_taipei (2025, 7, 14) 8 0 0) (iso_taipei (2025, 7, 16) 22 0 0)]
   \<and> snd (handleBatchCheckTimeSlotAvailability UTC_OFFSET_MS configured two_calendars
          (ascii ''2025-07-01'') (ascii ''2025-09-01''))
     = [GetEvents (ascii ''slots'') (iso_taipei (2025, 7, 1) 8 0 0) (iso_taipei (2025, 9, 1) 22 0 0),
        GetEvents (ascii ''bookings'') (iso_taipei (2025, 7, 1) 8 0 0) (iso_taipei (2025, 9, 1) 22 0 0)]
   \<and> batch_entry (fst (handleBatchCheckTimeSlotAvailability UTC_OFFSET_MS configured two_calendars
          (ascii ''2025-07-14'') (ascii ''2025-07-16''))) (2025, 7, 15) (14, 0)
     = Some \<lparr>available = False, conflictCount = 1, conflictingEvents = [afternoon_booking],
             reason = ConflictsWith 1\<rparr>"
proof -
  have cals: "timeSlotsCalendarId configured = Inr (ascii ''slots'')"
    "calendarId configured = Inr (ascii ''bookings'')"
    by code_simp+
  have short: "DATE_REGEX_test (ascii ''2025-07-14'')" "DATE_REGEX_test (ascii ''2025-07-16'')"
    "date_fields_ok (date_fields (ascii ''2025-07-14''))"
    "date_fields_ok (date_fields (ascii ''2025-07-16''))"
    "days_from_civil (date_fields (ascii ''2025-07-14''))
       \<le> days_from_civil (date_fields (ascii ''2025-07-16''))"
    "days_from_civil (date_fields (ascii ''2025-07-16''))
       - days_from_civil (date_fields (ascii ''2025-07-14'')) \<le> 62"
    by code_simp+
  have long: "DATE_REGEX_test (ascii ''2025-07-01'')" "DATE_REGEX_test (ascii ''2025-09-01'')"
    "date_fields_ok (date_fields (ascii ''2025-07-01''))"
    "date_fields_ok (date_fields (ascii ''2025-09-01''))"
    "days_from_civil (date_fields (ascii ''2025-07-01''))
       \<le> days_from_civil (date_fields (ascii ''2025-09-01''))"
    "days_from_civil (date_fields (ascii ''2025-09-01''))
       - days_from_civil (date_fields (ascii ''2025-07-01'')) \<le> 62"
    by code_simp+
  have src: "\<And>s e. two_calendars (ascii ''slots'') s e = Inr [offer_afternoon]"
    "\<And>s e. two_calendars (ascii ''bookings'') s e = Inr [afternoon_booking]"
    by (simp_all add: two_calendars_def ascii_def)
  have r_short:
    "fst (getOptimizedQueryRangeBatch UTC_OFFSET_MS (date_fields (ascii ''2025-07-14''))
            (date_fields (ascii ''2025-07-16''))) = iso_taipei (2025, 7, 14) 8 0 0"
    "snd (getOptimizedQueryRangeBatch UTC_OFFSET_MS (date_fields (ascii ''2025-07-14''))
            (date_fields (ascii ''2025-07-16''))) = iso_taipei (2025, 7, 16) 22 0 0"
    by code_simp+
  have r_long:
    "fst (getOptimizedQueryRangeBatch UTC_OFFSET_MS (date_fields (ascii ''2025-07-01''))
            (date_fields (ascii ''2025-09-01''))) = iso_taipei (2025, 7, 1) 8 0 0"
    "snd (getOptimizedQueryRangeBatch UTC_OFFSET_MS (date_fields (ascii ''2025-07-01''))
            (date_fields (ascii ''2025-09-01''))) = iso_taipei (2025, 9, 1) 22 0 0"
    by code_simp+
  have entry: "batch_entry (fst (handleBatchCheckTimeSlotAvailability UTC_OFFSET_MS configured two_calendars
          (ascii ''2025-07-14'') (ascii ''2025-07-16''))) (2025, 7, 15) (14, 0)
     = Some \<lparr>available = False, conflictCount = 1, conflictingEvents = [afternoon_booking],
             reason = ConflictsWith 1\<rparr>"
    by code_simp
  note t_short = batch_two_fetches [OF short cals src(1) src(2), of UTC_OFFSET_MS]
  note t_long = batch_two_fetches [OF long cals src(1) src(2), of UTC_OFFSET_MS]
  from t_short have a: "snd (handleBatchCheckTimeSlotAvailability UTC_OFFSET_MS configured two_calendars
          (ascii ''2025-07-14'') (ascii ''2025-07-16''))
     = [GetEvents (ascii ''slots'') (iso_taipei (2025, 7, 14) 8 0 0) (iso_taipei (2025, 7, 16) 22 0 0),
        GetEvents (ascii ''bookings'') (iso_taipei (2025, 7, 14) 8 0 0) (iso_taipei (2025, 7, 16) 22 0 0)]"
    unfolding r_short by (rule conjunct1)
  from t_long have b: "snd (handleBatchCheckTimeSlotAvailability UTC_OFFSET_MS configured two_calendars
          (ascii ''2025-07-01'') (ascii ''2025-09-01''))
     = [GetEvents (ascii ''slots'') (iso_taipei (2025, 7, 1) 8 0 0) (iso_taipei (2025, 9, 1) 22 0 0),
        GetEvents (ascii ''bookings'') (iso_taipei (2025, 7, 1) 8 0 0) (iso_taipei (2025, 9, 1) 22 0 0)]"
    unfolding r_long by (rule conjunct1)
  from a b entry show ?thesis by (intro conjI)
qed

end
